theory Spec2Isabelle
  imports Main
begin

section \<open>Python values, exceptions and subscripting\<close>

text \<open>
  The repository is two Jupyter notebooks. Every code cell is a short sequence of Python
  statements over the notebook's global namespace; the libraries they call (the HTTP
  client, the JSON parser, the image decoder, the NLP toolkit) are not part of the
  repository and enter the model as parameters.

  An exception is a value of type \<open>error\<close>. \<open>Raised\<close> stands for any exception that a
  library raises; the other constructors are the exceptions that the interpreter itself
  raises for the operations the notebooks use.
\<close>

datatype subscript = Key string | Index nat

datatype error =
    NameError string
  | KeyError subscript
  | IndexError
  | TypeError
  | Raised string

text \<open>
  What \<open>response.json()\<close> returns: Python's image of a JSON document. An object is a
  \<open>dict\<close> with string keys, kept here as an association list read with \<open>map_of\<close>
  (the keys of a parsed object are distinct). A float is kept as its literal, since no cell computes with one. A \<open>char\<close> stands
  for one character of a Python string.
\<close>

datatype json =
    JNull
  | JBool bool
  | JInt int
  | JFloat string
  | JStr string
  | JArr "json list"
  | JObj "(string \<times> json) list"

text \<open>
  \<open>v[k]\<close> for a string key or a non-negative integer index. A \<open>dict\<close> raises KeyError
  for a missing key (an integer is never a key of a parsed JSON object), a \<open>list\<close> or
  \<open>str\<close> raises IndexError out of range and TypeError for a string subscript, and
  \<open>None\<close>, numbers and booleans are not subscriptable.
\<close>

fun getitem :: "json \<Rightarrow> subscript \<Rightarrow> error + json" where
  "getitem (JObj kvs) (Key k) =
     (case map_of kvs k of None \<Rightarrow> Inl (KeyError (Key k)) | Some v \<Rightarrow> Inr v)"
| "getitem (JObj kvs) (Index i) = Inl (KeyError (Index i))"
| "getitem (JArr xs) (Index i) = (if i < length xs then Inr (xs ! i) else Inl IndexError)"
| "getitem (JArr xs) (Key k) = Inl TypeError"
| "getitem (JStr s) (Index i) = (if i < length s then Inr (JStr [s ! i]) else Inl IndexError)"
| "getitem (JStr s) (Key k) = Inl TypeError"
| "getitem JNull _ = Inl TypeError"
| "getitem (JBool _) _ = Inl TypeError"
| "getitem (JInt _) _ = Inl TypeError"
| "getitem (JFloat _) _ = Inl TypeError"

text \<open>A chain of subscripts \<open>v[k1][k2]...\<close>, evaluated left to right.\<close>

fun getpath :: "json \<Rightarrow> subscript list \<Rightarrow> error + json" where
  "getpath v [] = Inr v"
| "getpath v (k # ks) = (case getitem v k of Inl e \<Rightarrow> Inl e | Inr u \<Rightarrow> getpath u ks)"

text \<open>
  What a \<open>for\<close> loop iterates over: the elements of a list, the keys of a dict, the
  characters of a string; any other JSON value is not iterable.
\<close>

fun py_iter :: "json \<Rightarrow> error + json list" where
  "py_iter (JArr xs) = Inr xs"
| "py_iter (JObj kvs) = Inr (map (\<lambda>kv. JStr (fst kv)) kvs)"
| "py_iter (JStr s) = Inr (map (\<lambda>c. JStr [c]) s)"
| "py_iter JNull = Inl TypeError"
| "py_iter (JBool _) = Inl TypeError"
| "py_iter (JInt _) = Inl TypeError"
| "py_iter (JFloat _) = Inl TypeError"

text \<open>
  A replacement field \<open>{x}\<close> of an f-string and an argument of \<open>print\<close>: a \<open>str\<close> is
  inserted as it is, any other value through the interpreter's own rendering, which is
  the parameter \<open>render\<close>.
\<close>

definition format_value :: "(json \<Rightarrow> string) \<Rightarrow> json \<Rightarrow> string" where
  "format_value render v = (case v of JStr s \<Rightarrow> s | _ \<Rightarrow> render v)"

section \<open>Running cells\<close>

text \<open>
  A statement takes the namespace and returns the namespace it leaves behind together
  with the exception it raised, if any. No cell of either notebook contains \<open>try\<close>:
  statements run in order and the first exception ends the run, leaving the namespace
  as it was at that point.
\<close>

type_synonym 's stmt = "'s \<Rightarrow> 's \<times> error option"

fun run_stmts :: "'s stmt list \<Rightarrow> 's stmt" where
  "run_stmts [] s = (s, None)"
| "run_stmts (f # fs) s =
     (case f s of (s', None) \<Rightarrow> run_stmts fs s' | (s', Some e) \<Rightarrow> (s', Some e))"

text \<open>Reading a global name: NameError when it has not been assigned.\<close>

definition name_lookup :: "string \<Rightarrow> 'a option \<Rightarrow> error + 'a" where
  "name_lookup n v = (case v of None \<Rightarrow> Inl (NameError n) | Some x \<Rightarrow> Inr x)"

section \<open>The IIIF notebook\<close>

text \<open>
  The libraries the notebook calls. \<open>http_get n url\<close> is \<open>requests.get(url)\<close> issued
  as the request number \<open>n\<close> of the run: the exception it raises or the body of the
  response. \<open>json_loads\<close> is \<open>response.json()\<close> on that body, \<open>image_open\<close> is
  \<open>Image.open\<close> on the raw stream, \<open>py_str\<close> is \<open>str\<close> on a value that is not a
  string.
\<close>

record world =
  http_get :: "nat \<Rightarrow> string \<Rightarrow> error + string"
  json_loads :: "string \<Rightarrow> error + json"
  image_open :: "string \<Rightarrow> error + string"
  py_str :: "json \<Rightarrow> string"

text \<open>
  What a cell shows: a line written by \<open>print\<close>, the value of the last expression of
  the cell, a value written by the pretty printer, an image passed to \<open>display\<close>.
  The \<open>import\<close> statements and the construction of the pretty printer are taken to
  succeed and are not statements of the model.
\<close>

datatype shown =
    Print string
  | Echo json
  | PPrint json
  | Display string

text \<open>The value of the last expression of a cell is shown unless it is \<open>None\<close>.\<close>

definition echo :: "json \<Rightarrow> shown list" where
  "echo v = (if v = JNull then [] else [Echo v])"

text \<open>
  The global namespace of the notebook, one field for each variable it assigns
  (\<open>size_v\<close> is the variable \<open>size\<close>), the URLs requested so far in \<open>gets\<close> and what
  the cells have shown in \<open>out\<close>.
\<close>

record iiif =
  ie_pid :: "string option"
  manifest_url :: "string option"
  response :: "string option"
  manifest :: "json option"
  attribution :: "json option"
  title :: "json option"
  canvases :: "json option"
  canvas :: "json option"
  image_id :: "json option"
  image_url :: "string option"
  img :: "string option"
  region :: "string option"
  rotation :: "string option"
  size_v :: "string option"
  quality :: "string option"
  gets :: "string list"
  out :: "shown list"

definition iiif_init :: iiif where
  "iiif_init = \<lparr>ie_pid = None, manifest_url = None, response = None, manifest = None,
     attribution = None, title = None, canvases = None, canvas = None, image_id = None,
     image_url = None, img = None, region = None, rotation = None, size_v = None,
     quality = None, gets = [], out = []\<rparr>"

subsection \<open>Identifier and manifest\<close>

text \<open>\<^verbatim>\<open>ie_pid = "IE145082"\<close>\<close>

definition set_ie_pid :: "iiif stmt" where
  "set_ie_pid s = (s\<lparr>ie_pid := Some ''IE145082''\<rparr>, None)"

text \<open>
  \<^verbatim>\<open>manifest_url = f"https://rosetta.slv.vic.gov.au/delivery/iiif/presentation/2.1/{ie_pid}/manifest"\<close>
\<close>

definition set_manifest_url :: "iiif stmt" where
  "set_manifest_url s =
     (case name_lookup ''ie_pid'' (ie_pid s) of
        Inl e \<Rightarrow> (s, Some e)
      | Inr p \<Rightarrow>
          (s\<lparr>manifest_url :=
               Some (''https://rosetta.slv.vic.gov.au/delivery/iiif/presentation/2.1/''
                     @ p @ ''/manifest'')\<rparr>, None))"

text \<open>\<^verbatim>\<open>response = requests.get(manifest_url)\<close>\<close>

definition get_manifest :: "world \<Rightarrow> iiif stmt" where
  "get_manifest w s =
     (case name_lookup ''manifest_url'' (manifest_url s) of
        Inl e \<Rightarrow> (s, Some e)
      | Inr u \<Rightarrow>
          (case http_get w (length (gets s)) u of
             Inl e \<Rightarrow> (s\<lparr>gets := gets s @ [u]\<rparr>, Some e)
           | Inr body \<Rightarrow> (s\<lparr>gets := gets s @ [u], response := Some body\<rparr>, None)))"

text \<open>\<^verbatim>\<open>manifest = response.json()\<close>\<close>

definition parse_manifest :: "world \<Rightarrow> iiif stmt" where
  "parse_manifest w s =
     (case name_lookup ''response'' (response s) of
        Inl e \<Rightarrow> (s, Some e)
      | Inr body \<Rightarrow>
          (case json_loads w body of
             Inl e \<Rightarrow> (s, Some e)
           | Inr m \<Rightarrow> (s\<lparr>manifest := Some m\<rparr>, None)))"

text \<open>\<^verbatim>\<open>pp.pprint(manifest)\<close>\<close>

definition pprint_manifest :: "iiif stmt" where
  "pprint_manifest s =
     (case name_lookup ''manifest'' (manifest s) of
        Inl e \<Rightarrow> (s, Some e)
      | Inr m \<Rightarrow> (s\<lparr>out := out s @ [PPrint m]\<rparr>, None))"

definition manifest_cell :: "world \<Rightarrow> iiif stmt list" where
  "manifest_cell w = [set_manifest_url, get_manifest w, parse_manifest w, pprint_manifest]"

subsection \<open>Fields of the manifest\<close>

text \<open>The value of a global variable followed by a chain of subscripts.\<close>

definition eval_path :: "string \<Rightarrow> json option \<Rightarrow> subscript list \<Rightarrow> error + json" where
  "eval_path n var ks =
     (case name_lookup n var of Inl e \<Rightarrow> Inl e | Inr v \<Rightarrow> getpath v ks)"

text \<open>\<^verbatim>\<open>attribution = manifest["attribution"]\<close>\<close>

definition set_attribution :: "iiif stmt" where
  "set_attribution s =
     (case eval_path ''manifest'' (manifest s) [Key ''attribution''] of
        Inl e \<Rightarrow> (s, Some e)
      | Inr v \<Rightarrow> (s\<lparr>attribution := Some v\<rparr>, None))"

text \<open>\<^verbatim>\<open>title = manifest["label"]\<close>\<close>

definition set_title :: "iiif stmt" where
  "set_title s =
     (case eval_path ''manifest'' (manifest s) [Key ''label''] of
        Inl e \<Rightarrow> (s, Some e)
      | Inr v \<Rightarrow> (s\<lparr>title := Some v\<rparr>, None))"

text \<open>\<^verbatim>\<open>f"Copyright:  {attribution}. Title: {title}"\<close>, the value the cell shows.\<close>

definition echo_copyright :: "world \<Rightarrow> iiif stmt" where
  "echo_copyright w s =
     (case name_lookup ''attribution'' (attribution s) of
        Inl e \<Rightarrow> (s, Some e)
      | Inr a \<Rightarrow>
          (case name_lookup ''title'' (title s) of
             Inl e \<Rightarrow> (s, Some e)
           | Inr t \<Rightarrow>
               (s\<lparr>out := out s @
                    [Echo (JStr (''Copyright:  '' @ format_value (py_str w) a
                                 @ ''. Title: '' @ format_value (py_str w) t))]\<rparr>, None)))"

definition attribution_cell :: "world \<Rightarrow> iiif stmt list" where
  "attribution_cell w = [set_attribution, set_title, echo_copyright w]"

text \<open>\<^verbatim>\<open>canvases = manifest["sequences"][0]["canvases"]\<close>\<close>

definition set_canvases :: "iiif stmt" where
  "set_canvases s =
     (case eval_path ''manifest'' (manifest s) [Key ''sequences'', Index 0, Key ''canvases''] of
        Inl e \<Rightarrow> (s, Some e)
      | Inr v \<Rightarrow> (s\<lparr>canvases := Some v\<rparr>, None))"

definition echo_canvases :: "iiif stmt" where
  "echo_canvases s =
     (case name_lookup ''canvases'' (canvases s) of
        Inl e \<Rightarrow> (s, Some e)
      | Inr v \<Rightarrow> (s\<lparr>out := out s @ echo v\<rparr>, None))"

definition canvases_cell :: "iiif stmt list" where
  "canvases_cell = [set_canvases, echo_canvases]"

subsection \<open>The loop over the canvases\<close>

text \<open>
  \<^verbatim>\<open>
  for canvas in canvases:
    print("Image ID",canvas["images"][0]["resource"]["service"]["@id"])
    print("Format",canvas["images"][0]["resource"]["format"])
    print("Width",canvas["images"][0]["resource"]["width"])
    print("Height",canvas["images"][0]["resource"]["height"])
  \<close>
  \<open>print\<close> separates its arguments by one space.
\<close>

definition bind_canvas :: "json \<Rightarrow> iiif stmt" where
  "bind_canvas c s = (s\<lparr>canvas := Some c\<rparr>, None)"

definition print_field :: "world \<Rightarrow> string \<Rightarrow> subscript list \<Rightarrow> iiif stmt" where
  "print_field w label ks s =
     (case eval_path ''canvas'' (canvas s) ks of
        Inl e \<Rightarrow> (s, Some e)
      | Inr v \<Rightarrow>
          (s\<lparr>out := out s @ [Print (label @ '' '' @ format_value (py_str w) v)]\<rparr>, None))"

definition loop_body :: "world \<Rightarrow> json \<Rightarrow> iiif stmt list" where
  "loop_body w c =
     [bind_canvas c,
      print_field w ''Image ID''
        [Key ''images'', Index 0, Key ''resource'', Key ''service'', Key ''@id''],
      print_field w ''Format'' [Key ''images'', Index 0, Key ''resource'', Key ''format''],
      print_field w ''Width'' [Key ''images'', Index 0, Key ''resource'', Key ''width''],
      print_field w ''Height'' [Key ''images'', Index 0, Key ''resource'', Key ''height'']]"

definition canvas_loop :: "world \<Rightarrow> iiif stmt" where
  "canvas_loop w s =
     (case name_lookup ''canvases'' (canvases s) of
        Inl e \<Rightarrow> (s, Some e)
      | Inr v \<Rightarrow>
          (case py_iter v of
             Inl e \<Rightarrow> (s, Some e)
           | Inr cs \<Rightarrow> run_stmts (concat (map (loop_body w) cs)) s))"

definition loop_cell :: "world \<Rightarrow> iiif stmt list" where
  "loop_cell w = [canvas_loop w]"

subsection \<open>Image requests\<close>

text \<open>\<^verbatim>\<open>image_id = canvases[0]["images"][0]["resource"]["service"]["@id"]\<close>\<close>

definition set_image_id :: "iiif stmt" where
  "set_image_id s =
     (case eval_path ''canvases'' (canvases s)
             [Index 0, Key ''images'', Index 0, Key ''resource'', Key ''service'', Key ''@id''] of
        Inl e \<Rightarrow> (s, Some e)
      | Inr v \<Rightarrow> (s\<lparr>image_id := Some v\<rparr>, None))"

definition echo_image_id :: "iiif stmt" where
  "echo_image_id s =
     (case name_lookup ''image_id'' (image_id s) of
        Inl e \<Rightarrow> (s, Some e)
      | Inr v \<Rightarrow> (s\<lparr>out := out s @ echo v\<rparr>, None))"

definition image_id_cell :: "iiif stmt list" where
  "image_id_cell = [set_image_id, echo_image_id]"

text \<open>\<^verbatim>\<open>image_url = f"{image_id}/full/max/0/default.jpg"\<close>\<close>

definition set_image_url_full :: "world \<Rightarrow> iiif stmt" where
  "set_image_url_full w s =
     (case name_lookup ''image_id'' (image_id s) of
        Inl e \<Rightarrow> (s, Some e)
      | Inr i \<Rightarrow>
          (s\<lparr>image_url := Some (format_value (py_str w) i @ ''/full/max/0/default.jpg'')\<rparr>,
           None))"

text \<open>
  \<^verbatim>\<open>image_url = f"{image_id}/{region}/{size}/{rotation}/{quality}.jpg"\<close>
  The replacement fields are evaluated from left to right.
\<close>

definition set_image_url :: "world \<Rightarrow> iiif stmt" where
  "set_image_url w s =
     (case name_lookup ''image_id'' (image_id s) of
        Inl e \<Rightarrow> (s, Some e)
      | Inr i \<Rightarrow>
     (case name_lookup ''region'' (region s) of
        Inl e \<Rightarrow> (s, Some e)
      | Inr r \<Rightarrow>
     (case name_lookup ''size'' (size_v s) of
        Inl e \<Rightarrow> (s, Some e)
      | Inr z \<Rightarrow>
     (case name_lookup ''rotation'' (rotation s) of
        Inl e \<Rightarrow> (s, Some e)
      | Inr t \<Rightarrow>
     (case name_lookup ''quality'' (quality s) of
        Inl e \<Rightarrow> (s, Some e)
      | Inr q \<Rightarrow>
          (s\<lparr>image_url :=
               Some (format_value (py_str w) i @ ''/'' @ r @ ''/'' @ z @ ''/'' @ t
                     @ ''/'' @ q @ ''.jpg'')\<rparr>, None))))))"

text \<open>\<^verbatim>\<open>img = Image.open(requests.get(image_url, stream=True).raw)\<close>\<close>

definition fetch_image :: "world \<Rightarrow> iiif stmt" where
  "fetch_image w s =
     (case name_lookup ''image_url'' (image_url s) of
        Inl e \<Rightarrow> (s, Some e)
      | Inr u \<Rightarrow>
          (case http_get w (length (gets s)) u of
             Inl e \<Rightarrow> (s\<lparr>gets := gets s @ [u]\<rparr>, Some e)
           | Inr raw \<Rightarrow>
               (case image_open w raw of
                  Inl e \<Rightarrow> (s\<lparr>gets := gets s @ [u]\<rparr>, Some e)
                | Inr i \<Rightarrow> (s\<lparr>gets := gets s @ [u], img := Some i\<rparr>, None))))"

text \<open>\<^verbatim>\<open>display(img)\<close>\<close>

definition display_img :: "iiif stmt" where
  "display_img s =
     (case name_lookup ''img'' (img s) of
        Inl e \<Rightarrow> (s, Some e)
      | Inr i \<Rightarrow> (s\<lparr>out := out s @ [Display i]\<rparr>, None))"

definition set_region :: "string \<Rightarrow> iiif stmt" where
  "set_region v s = (s\<lparr>region := Some v\<rparr>, None)"

definition set_rotation :: "string \<Rightarrow> iiif stmt" where
  "set_rotation v s = (s\<lparr>rotation := Some v\<rparr>, None)"

definition set_size :: "string \<Rightarrow> iiif stmt" where
  "set_size v s = (s\<lparr>size_v := Some v\<rparr>, None)"

definition set_quality :: "string \<Rightarrow> iiif stmt" where
  "set_quality v s = (s\<lparr>quality := Some v\<rparr>, None)"

text \<open>The five cells that request an image, in the order of the notebook.\<close>

definition full_image_cell :: "world \<Rightarrow> iiif stmt list" where
  "full_image_cell w = [set_image_url_full w, fetch_image w, display_img]"

definition size_cell :: "world \<Rightarrow> iiif stmt list" where
  "size_cell w =
     [set_region ''full'', set_rotation ''0'', set_size ''pct:10'', set_quality ''default'',
      set_image_url w, fetch_image w, display_img]"

definition quality_cell :: "world \<Rightarrow> iiif stmt list" where
  "quality_cell w = [set_quality ''gray'', set_image_url w, fetch_image w, display_img]"

definition region_cell_left :: "world \<Rightarrow> iiif stmt list" where
  "region_cell_left w =
     [set_region ''0,1400,2400,2300'', set_size ''pct:15'',
      set_image_url w, fetch_image w, display_img]"

definition region_cell_right :: "world \<Rightarrow> iiif stmt list" where
  "region_cell_right w =
     [set_region ''3400,1400,2700,2700'', set_image_url w, fetch_image w, display_img]"

subsection \<open>The whole notebook\<close>

text \<open>
  The code cells from top to bottom. Running the notebook runs them in this order from
  an empty namespace and stops at the first exception.
\<close>

definition iiif_cells :: "world \<Rightarrow> iiif stmt list list" where
  "iiif_cells w =
     [[set_ie_pid], manifest_cell w, attribution_cell w, canvases_cell, loop_cell w,
      image_id_cell, full_image_cell w, size_cell w, quality_cell w,
      region_cell_left w, region_cell_right w]"

definition run_cells :: "'s stmt list list \<Rightarrow> 's stmt" where
  "run_cells cs = run_stmts (concat cs)"

definition run_iiif :: "world \<Rightarrow> iiif \<times> error option" where
  "run_iiif w = run_cells (iiif_cells w) iiif_init"

section \<open>The named-entity notebook\<close>

text \<open>
  What \<open>nltk.ne_chunk\<close> returns: a tree whose leaves are tagged tokens and whose inner
  nodes carry a label.
\<close>

datatype tree = Leaf string string | Tree string "tree list"

text \<open>
  The toolkit. Each function is the library's, together with the datasets that
  \<open>nltk.download\<close> has put in place: the exception it raises or the value it returns.
  \<open>upenn_tagset\<close> returns the text it prints, \<open>draw_tree\<close> the drawing.
\<close>

record toolkit =
  download :: "string \<Rightarrow> error + bool"
  word_tokenize :: "string \<Rightarrow> error + string list"
  pos_tag :: "string list \<Rightarrow> error + (string \<times> string) list"
  upenn_tagset :: "string \<Rightarrow> error + string"
  ne_chunk :: "(string \<times> string) list \<Rightarrow> error + tree"
  draw_tree :: "tree \<Rightarrow> error + string"

datatype ner_shown =
    Flag bool
  | Tokens "string list"
  | Tagged "(string \<times> string) list"
  | Text string
  | Drawing string

record ner =
  about_slv :: "string option"
  tokens :: "string list option"
  tagged_tokens :: "(string \<times> string) list option"
  entities :: "tree option"
  ner_out :: "ner_shown list"

definition ner_init :: ner where
  "ner_init = \<lparr>about_slv = None, tokens = None, tagged_tokens = None, entities = None,
     ner_out = []\<rparr>"

text \<open>
  \<^verbatim>\<open>nltk.download('punkt_tab')\<close> and the four calls after it. The value of the last
  expression of a cell is shown, so \<open>download_shown\<close> is the fifth call.
\<close>

definition download_stmt :: "toolkit \<Rightarrow> string \<Rightarrow> ner stmt" where
  "download_stmt tk n s = (case download tk n of Inl e \<Rightarrow> (s, Some e) | Inr b \<Rightarrow> (s, None))"

definition download_shown :: "toolkit \<Rightarrow> string \<Rightarrow> ner stmt" where
  "download_shown tk n s =
     (case download tk n of
        Inl e \<Rightarrow> (s, Some e)
      | Inr b \<Rightarrow> (s\<lparr>ner_out := ner_out s @ [Flag b]\<rparr>, None))"

definition download_cell :: "toolkit \<Rightarrow> ner stmt list" where
  "download_cell tk =
     [download_stmt tk ''punkt_tab'', download_stmt tk ''averaged_perceptron_tagger_eng'',
      download_stmt tk ''maxent_ne_chunker_tab'', download_stmt tk ''words'',
      download_shown tk ''tagsets_json'']"

text \<open>
  The sentence assigned to \<open>about_slv\<close>: a triple-quoted literal of four lines, the
  first empty and the last four spaces.
\<close>

definition about_slv_text :: string where
  "about_slv_text =
     [CHR 0x0A] @
     ''    Located in Melbourne, it was established in 1854 as the Melbourne Public Library,''
     @ [CHR 0x0A] @
     ''    making it Australia'' @ [CHR 0x27] @
     ''s oldest public library and one of the first free libraries in the world.''
     @ [CHR 0x0A] @ ''    ''"

definition set_about_slv :: "ner stmt" where
  "set_about_slv s = (s\<lparr>about_slv := Some about_slv_text\<rparr>, None)"

text \<open>\<^verbatim>\<open>tokens = nltk.word_tokenize(about_slv)\<close>\<close>

definition tokenize :: "toolkit \<Rightarrow> ner stmt" where
  "tokenize tk s =
     (case name_lookup ''about_slv'' (about_slv s) of
        Inl e \<Rightarrow> (s, Some e)
      | Inr t \<Rightarrow>
          (case word_tokenize tk t of
             Inl e \<Rightarrow> (s, Some e)
           | Inr ts \<Rightarrow> (s\<lparr>tokens := Some ts\<rparr>, None)))"

definition echo_tokens :: "ner stmt" where
  "echo_tokens s =
     (case name_lookup ''tokens'' (tokens s) of
        Inl e \<Rightarrow> (s, Some e)
      | Inr ts \<Rightarrow> (s\<lparr>ner_out := ner_out s @ [Tokens ts]\<rparr>, None))"

text \<open>\<^verbatim>\<open>tagged_tokens = nltk.pos_tag(tokens)\<close>\<close>

definition tag :: "toolkit \<Rightarrow> ner stmt" where
  "tag tk s =
     (case name_lookup ''tokens'' (tokens s) of
        Inl e \<Rightarrow> (s, Some e)
      | Inr ts \<Rightarrow>
          (case pos_tag tk ts of
             Inl e \<Rightarrow> (s, Some e)
           | Inr tg \<Rightarrow> (s\<lparr>tagged_tokens := Some tg\<rparr>, None)))"

definition echo_tagged :: "ner stmt" where
  "echo_tagged s =
     (case name_lookup ''tagged_tokens'' (tagged_tokens s) of
        Inl e \<Rightarrow> (s, Some e)
      | Inr tg \<Rightarrow> (s\<lparr>ner_out := ner_out s @ [Tagged tg]\<rparr>, None))"

text \<open>\<^verbatim>\<open>nltk.help.upenn_tagset('NNP')\<close> and \<^verbatim>\<open>nltk.help.upenn_tagset('NN*')\<close>\<close>

definition help_tagset :: "toolkit \<Rightarrow> string \<Rightarrow> ner stmt" where
  "help_tagset tk pat s =
     (case upenn_tagset tk pat of
        Inl e \<Rightarrow> (s, Some e)
      | Inr txt \<Rightarrow> (s\<lparr>ner_out := ner_out s @ [Text txt]\<rparr>, None))"

text \<open>\<^verbatim>\<open>entities = nltk.ne_chunk(tagged_tokens)\<close>\<close>

definition chunk :: "toolkit \<Rightarrow> ner stmt" where
  "chunk tk s =
     (case name_lookup ''tagged_tokens'' (tagged_tokens s) of
        Inl e \<Rightarrow> (s, Some e)
      | Inr tg \<Rightarrow>
          (case ne_chunk tk tg of
             Inl e \<Rightarrow> (s, Some e)
           | Inr en \<Rightarrow> (s\<lparr>entities := Some en\<rparr>, None)))"

text \<open>\<^verbatim>\<open>svgling.draw_tree(entities, font_size=10)\<close>\<close>

definition draw :: "toolkit \<Rightarrow> ner stmt" where
  "draw tk s =
     (case name_lookup ''entities'' (entities s) of
        Inl e \<Rightarrow> (s, Some e)
      | Inr en \<Rightarrow>
          (case draw_tree tk en of
             Inl e \<Rightarrow> (s, Some e)
           | Inr d \<Rightarrow> (s\<lparr>ner_out := ner_out s @ [Drawing d]\<rparr>, None)))"

text \<open>
  The code cells from top to bottom, after the shell escape that installs the packages
  (it is not Python and is outside the model). The two \<open>import\<close> statements are
  taken to succeed.
\<close>

definition ner_cells :: "toolkit \<Rightarrow> ner stmt list list" where
  "ner_cells tk =
     [download_cell tk, [set_about_slv], [tokenize tk, echo_tokens], [tag tk, echo_tagged],
      [help_tagset tk ''NNP''], [help_tagset tk ''NN*''], [chunk tk, draw tk]]"

definition run_ner :: "toolkit \<Rightarrow> ner \<times> error option" where
  "run_ner tk = run_cells (ner_cells tk) ner_init"

section \<open>The documented URL forms\<close>

text \<open>
  The two forms as the specification writes them, to compare with what the cells build.
  The form of a manifest request is \<open>{server}/delivery/iiif/presentation/2.1/{identifier}/manifest\<close>.
\<close>

definition presentation_manifest_form :: "string \<Rightarrow> string \<Rightarrow> string" where
  "presentation_manifest_form server identifier =
     server @ ''/delivery/iiif/presentation/2.1/'' @ identifier @ ''/manifest''"

text \<open>
  The form of an image request is
  \<open>{scheme}://{server}/{prefix}/{identifier}/{region}/{size}/{rotation}/{quality}.{format}\<close>.
  The notebook takes the first four parts in one piece from the manifest (the service
  \<open>@id\<close>), so \<open>image_request_form\<close> starts from that piece, which
  \<open>service_base\<close> puts together.
\<close>

type_synonym segment = string

definition image_request_form ::
  "string \<Rightarrow> segment \<Rightarrow> segment \<Rightarrow> segment \<Rightarrow> segment \<Rightarrow> segment \<Rightarrow> string" where
  "image_request_form base region_p size_p rotation_p quality_p format_p =
     base @ ''/'' @ region_p @ ''/'' @ size_p @ ''/'' @ rotation_p @ ''/'' @ quality_p
     @ ''.'' @ format_p"

definition service_base :: "segment \<Rightarrow> segment \<Rightarrow> segment \<Rightarrow> segment \<Rightarrow> string" where
  "service_base scheme server prefix_p identifier =
     scheme @ ''://'' @ server @ ''/'' @ prefix_p @ ''/'' @ identifier"

text \<open>
  The form filled with the current values of the variables \<open>region\<close>, \<open>size\<close>,
  \<open>rotation\<close> and \<open>quality\<close> of the namespace, as the specification describes every
  image URL. No cell assigns a variable for the format, so it is an argument.
\<close>

definition form_of_namespace :: "world \<Rightarrow> iiif \<Rightarrow> string \<Rightarrow> error + string" where
  "form_of_namespace w s format_p =
     (case name_lookup ''image_id'' (image_id s) of
        Inl e \<Rightarrow> Inl e
      | Inr i \<Rightarrow>
     (case name_lookup ''region'' (region s) of
        Inl e \<Rightarrow> Inl e
      | Inr r \<Rightarrow>
     (case name_lookup ''size'' (size_v s) of
        Inl e \<Rightarrow> Inl e
      | Inr z \<Rightarrow>
     (case name_lookup ''rotation'' (rotation s) of
        Inl e \<Rightarrow> Inl e
      | Inr t \<Rightarrow>
     (case name_lookup ''quality'' (quality s) of
        Inl e \<Rightarrow> Inl e
      | Inr q \<Rightarrow> Inr (image_request_form (format_value (py_str w) i) r z t q format_p))))))"

text \<open>
  The requests of a run that meets no exception, given the text \<open>base\<close> that the
  service \<open>@id\<close> of the manifest formats to: the manifest, then one image per
  image-request cell.
\<close>

definition image_requests :: "string \<Rightarrow> string list" where
  "image_requests base =
     [image_request_form base ''full'' ''max'' ''0'' ''default'' ''jpg'',
      image_request_form base ''full'' ''pct:10'' ''0'' ''default'' ''jpg'',
      image_request_form base ''full'' ''pct:10'' ''0'' ''gray'' ''jpg'',
      image_request_form base ''0,1400,2400,2300'' ''pct:15'' ''0'' ''gray'' ''jpg'',
      image_request_form base ''3400,1400,2700,2700'' ''pct:15'' ''0'' ''gray'' ''jpg'']"

definition slv_manifest_url :: string where
  "slv_manifest_url =
     presentation_manifest_form ''https://rosetta.slv.vic.gov.au'' ''IE145082''"

subsection \<open>Reading an image request back\<close>

text \<open>
  An image request is read from its end: the last four path segments are the region,
  the size, the rotation and \<open>quality.format\<close>; what precedes them is the identifier
  with its scheme, server and prefix.
\<close>

definition split_last :: "char \<Rightarrow> string \<Rightarrow> (string \<times> string) option" where
  "split_last c s =
     (if c \<in> set s
      then Some (rev (tl (dropWhile (\<lambda>x. x \<noteq> c) (rev s))), rev (takeWhile (\<lambda>x. x \<noteq> c) (rev s)))
      else None)"

record image_request =
  req_base :: string
  req_region :: string
  req_size :: string
  req_rotation :: string
  req_quality :: string
  req_format :: string

definition parse_image_request :: "string \<Rightarrow> image_request option" where
  "parse_image_request u =
     (case split_last CHR ''/'' u of
        None \<Rightarrow> None
      | Some (u1, qf) \<Rightarrow>
     (case split_last CHR ''/'' u1 of
        None \<Rightarrow> None
      | Some (u2, t) \<Rightarrow>
     (case split_last CHR ''/'' u2 of
        None \<Rightarrow> None
      | Some (u3, z) \<Rightarrow>
     (case split_last CHR ''/'' u3 of
        None \<Rightarrow> None
      | Some (b, r) \<Rightarrow>
     (case split_last CHR ''.'' qf of
        None \<Rightarrow> None
      | Some (q, f) \<Rightarrow>
          Some \<lparr>req_base = b, req_region = r, req_size = z, req_rotation = t,
                req_quality = q, req_format = f\<rparr>)))))"

subsection \<open>A canvas without its further images\<close>

text \<open>
  \<open>first_image_only\<close> cuts the \<open>images\<close> array of a canvas down to its first entry and
  leaves every other canvas as it is.
\<close>

definition first_only :: "json \<Rightarrow> json" where
  "first_only v = (case v of JArr (x # xs) \<Rightarrow> JArr [x] | _ \<Rightarrow> v)"

definition first_image_only :: "json \<Rightarrow> json" where
  "first_image_only c =
     (case c of
        JObj kvs \<Rightarrow>
          JObj (map (\<lambda>kv. if fst kv = ''images'' then (fst kv, first_only (snd kv)) else kv) kvs)
      | _ \<Rightarrow> c)"

section \<open>The run described in the notebooks\<close>

text \<open>
  The manifest of \<open>IE145082\<close> as far as the notebook quotes it, and a server that
  answers every request: with this manifest, and with the URL of an image as its data.
\<close>

definition slv_image_id :: string where
  "slv_image_id = ''https://rosetta.slv.vic.gov.au:2083/iiif/2/IE145082:FL21000768.jpg''"

definition slv_resource :: json where
  "slv_resource = JObj
     [(''format'', JStr ''image/jpeg''),
      (''service'', JObj [(''@id'', JStr slv_image_id)]),
      (''height'', JInt 5257),
      (''width'', JInt 7000)]"

definition slv_canvas :: json where
  "slv_canvas = JObj [(''images'', JArr [JObj [(''resource'', slv_resource)]])]"

definition slv_canvases :: json where
  "slv_canvases = JArr [slv_canvas]"

text \<open>The same canvas with a second entry in its \<open>images\<close> array.\<close>

definition crowded_canvas :: json where
  "crowded_canvas = JObj
     [(''images'', JArr [JObj [(''resource'', slv_resource)],
                         JObj [(''resource'', JObj [(''format'', JStr ''image/tiff'')])]])]"

definition slv_manifest :: json where
  "slv_manifest = JObj
     [(''attribution'', JStr ''This work is out of copyright''),
      (''description'', JStr []),
      (''label'', JStr ''[Berkshire pig with points marked on image]''),
      (''sequences'', JArr [JObj [(''canvases'', slv_canvases)]])]"

definition slv_render :: "json \<Rightarrow> string" where
  "slv_render v = (if v = JInt 7000 then ''7000'' else if v = JInt 5257 then ''5257'' else [])"

definition slv_world :: world where
  "slv_world = \<lparr>http_get = (\<lambda>n u. Inr u), json_loads = (\<lambda>b. Inr slv_manifest),
     image_open = (\<lambda>raw. Inr raw), py_str = slv_render\<rparr>"

text \<open>
  The outputs stored in the named-entity notebook, and a toolkit that returns them for
  the inputs of that run and raises LookupError for any other.
\<close>

definition recorded_tokens :: "string list" where
  "recorded_tokens =
     [''Located'', ''in'', ''Melbourne'', '','', ''it'', ''was'', ''established'', ''in'',
      ''1854'', ''as'', ''the'', ''Melbourne'', ''Public'', ''Library'', '','', ''making'',
      ''it'', ''Australia'', [CHR 0x27, CHR ''s''], ''oldest'', ''public'', ''library'',
      ''and'', ''one'', ''of'', ''the'', ''first'', ''free'', ''libraries'', ''in'', ''the'',
      ''world'', ''.'']"

definition recorded_tagged :: "(string \<times> string) list" where
  "recorded_tagged =
     [(''Located'', ''VBN''), (''in'', ''IN''), (''Melbourne'', ''NNP''), ('','', '',''),
      (''it'', ''PRP''), (''was'', ''VBD''), (''established'', ''VBN''), (''in'', ''IN''),
      (''1854'', ''CD''), (''as'', ''IN''), (''the'', ''DT''), (''Melbourne'', ''NNP''),
      (''Public'', ''NNP''), (''Library'', ''NNP''), ('','', '',''), (''making'', ''VBG''),
      (''it'', ''PRP''), (''Australia'', ''NNP''), ([CHR 0x27, CHR ''s''], ''POS''),
      (''oldest'', ''JJS''), (''public'', ''JJ''), (''library'', ''NN''), (''and'', ''CC''),
      (''one'', ''CD''), (''of'', ''IN''), (''the'', ''DT''), (''first'', ''JJ''),
      (''free'', ''JJ''), (''libraries'', ''NNS''), (''in'', ''IN''), (''the'', ''DT''),
      (''world'', ''NN''), (''.'', ''.'')]"

definition recorded_entities :: tree where
  "recorded_entities = Tree ''S''
     [Leaf ''Located'' ''VBN'', Leaf ''in'' ''IN'', Tree ''GPE'' [Leaf ''Melbourne'' ''NNP''],
      Leaf '','' '','', Leaf ''it'' ''PRP'', Leaf ''was'' ''VBD'', Leaf ''established'' ''VBN'',
      Leaf ''in'' ''IN'', Leaf ''1854'' ''CD'', Leaf ''as'' ''IN'', Leaf ''the'' ''DT'',
      Tree ''ORGANIZATION''
        [Leaf ''Melbourne'' ''NNP'', Leaf ''Public'' ''NNP'', Leaf ''Library'' ''NNP''],
      Leaf '','' '','', Leaf ''making'' ''VBG'', Leaf ''it'' ''PRP'',
      Tree ''GPE'' [Leaf ''Australia'' ''NNP''], Leaf [CHR 0x27, CHR ''s''] ''POS'',
      Leaf ''oldest'' ''JJS'', Leaf ''public'' ''JJ'', Leaf ''library'' ''NN'',
      Leaf ''and'' ''CC'', Leaf ''one'' ''CD'', Leaf ''of'' ''IN'', Leaf ''the'' ''DT'',
      Leaf ''first'' ''JJ'', Leaf ''free'' ''JJ'', Leaf ''libraries'' ''NNS'',
      Leaf ''in'' ''IN'', Leaf ''the'' ''DT'', Leaf ''world'' ''NN'', Leaf ''.'' ''.'']"

definition missing :: error where
  "missing = Raised ''LookupError''"

definition recorded_toolkit :: toolkit where
  "recorded_toolkit =
     \<lparr>download = (\<lambda>n. Inr True),
      word_tokenize = (\<lambda>t. if t = about_slv_text then Inr recorded_tokens else Inl missing),
      pos_tag = (\<lambda>ts. if ts = recorded_tokens then Inr recorded_tagged else Inl missing),
      upenn_tagset = (\<lambda>p. Inr p),
      ne_chunk = (\<lambda>tg. if tg = recorded_tagged then Inr recorded_entities else Inl missing),
      draw_tree = (\<lambda>en. Inr ''svg'')\<rparr>"

text \<open>
  A statement that only appends to the list of requests, and at most \<open>k\<close> of them.
\<close>

definition appends_at_most :: "nat \<Rightarrow> iiif stmt \<Rightarrow> bool" where
  "appends_at_most k f = (\<forall>s. \<exists>xs. gets (fst (f s)) = gets s @ xs \<and> length xs \<le> k)"

text \<open>A namespace as the cell that sets the size leaves it, for the quoted manifest.\<close>

definition slv_namespace :: iiif where
  "slv_namespace = iiif_init\<lparr>image_id := Some (JStr slv_image_id), region := Some ''full'',
     rotation := Some ''0'', size_v := Some ''pct:10'', quality := Some ''default''\<rparr>"

text \<open>
  Servers and toolkits that fail: no network, a body that is not JSON, a manifest given
  outright, and a tagger without its dataset.
\<close>

definition offline_world :: world where
  "offline_world = slv_world\<lparr>http_get := (\<lambda>n u. Inl (Raised ''ConnectionError''))\<rparr>"

definition garbled_world :: world where
  "garbled_world = slv_world\<lparr>json_loads := (\<lambda>b. Inl (Raised ''JSONDecodeError''))\<rparr>"

definition bare_world :: "json \<Rightarrow> world" where
  "bare_world m = slv_world\<lparr>json_loads := (\<lambda>b. Inr m)\<rparr>"

definition untrained_toolkit :: toolkit where
  "untrained_toolkit = recorded_toolkit\<lparr>pos_tag := (\<lambda>ts. Inl missing)\<rparr>"

text \<open>
  The tagged tokens at the leaves of a tree, from left to right, and the labelled
  groups directly below its root, each with its words.
\<close>

fun leaves :: "tree \<Rightarrow> (string \<times> string) list" where
  "leaves (Leaf tok pos) = [(tok, pos)]"
| "leaves (Tree label ts) = concat (map leaves ts)"

fun groups :: "tree \<Rightarrow> (string \<times> string list) list" where
  "groups (Leaf tok pos) = []"
| "groups (Tree label ts) =
     concat (map (\<lambda>t. case t of Leaf tok pos \<Rightarrow> []
                            | Tree l us \<Rightarrow> [(l, map fst (leaves (Tree l us)))]) ts)"

text \<open>
  The results of a sequence of operations, each the exception it raised or its value:
  the first exception among them, and the values before it.
\<close>

fun first_error :: "(error + 'a) list \<Rightarrow> error option" where
  "first_error [] = None"
| "first_error (Inl e # rs) = Some e"
| "first_error (Inr v # rs) = first_error rs"

fun values_before_error :: "(error + 'a) list \<Rightarrow> 'a list" where
  "values_before_error [] = []"
| "values_before_error (Inl e # rs) = []"
| "values_before_error (Inr v # rs) = v # values_before_error rs"

text \<open>
  What the loop is to print for one canvas, as the notebook explains it: the identifier,
  the format, the width and the height of the first image of the canvas, each line the
  label, a space and the value. A field that cannot be read is the exception of its
  subscript chain.
\<close>

definition canvas_fields :: "json \<Rightarrow> (string \<times> (error + json)) list" where
  "canvas_fields c =
     [(''Image ID'',
       getpath c [Key ''images'', Index 0, Key ''resource'', Key ''service'', Key ''@id'']),
      (''Format'', getpath c [Key ''images'', Index 0, Key ''resource'', Key ''format'']),
      (''Width'', getpath c [Key ''images'', Index 0, Key ''resource'', Key ''width'']),
      (''Height'', getpath c [Key ''images'', Index 0, Key ''resource'', Key ''height''])]"

definition field_line :: "world \<Rightarrow> string \<times> (error + json) \<Rightarrow> error + string" where
  "field_line w f =
     (case snd f of
        Inl e \<Rightarrow> Inl e
      | Inr v \<Rightarrow> Inr (fst f @ '' '' @ format_value (py_str w) v))"

definition canvas_lines :: "world \<Rightarrow> json list \<Rightarrow> (error + string) list" where
  "canvas_lines w cs = concat (map (\<lambda>c. map (field_line w) (canvas_fields c)) cs)"

text \<open>
  Requesting and opening the images of a list of URLs in turn, the first as request
  number \<open>n\<close>: the first exception, if any, and the URLs requested up to it.
\<close>

fun fetch_outcome :: "world \<Rightarrow> nat \<Rightarrow> string list \<Rightarrow> error option \<times> string list" where
  "fetch_outcome w n [] = (None, [])"
| "fetch_outcome w n (u # us) =
     (case http_get w n u of
        Inl e \<Rightarrow> (Some e, [u])
      | Inr raw \<Rightarrow>
          (case image_open w raw of
             Inl e \<Rightarrow> (Some e, [u])
           | Inr d \<Rightarrow> (fst (fetch_outcome w (Suc n) us), u # snd (fetch_outcome w (Suc n) us))))"

text \<open>
  The exception a run of the IIIF notebook ends with, if any, and the URLs it requests,
  told from the results of the operations the cells call, in the order of the cells:
  the GET of the manifest, the parser, the subscripts of the manifest, the iteration
  over the canvases and the fields printed for each, the subscripts for the image
  identifier, and the GET and the decoding of each of the five images. The first
  operation that raises ends the run with its exception.
\<close>

definition iiif_outcome :: "world \<Rightarrow> error option \<times> string list" where
  "iiif_outcome w =
     (case http_get w 0 slv_manifest_url of
        Inl e \<Rightarrow> (Some e, [slv_manifest_url])
      | Inr body \<Rightarrow>
     (case json_loads w body of
        Inl e \<Rightarrow> (Some e, [slv_manifest_url])
      | Inr m \<Rightarrow>
     (case getpath m [Key ''attribution''] of
        Inl e \<Rightarrow> (Some e, [slv_manifest_url])
      | Inr a \<Rightarrow>
     (case getpath m [Key ''label''] of
        Inl e \<Rightarrow> (Some e, [slv_manifest_url])
      | Inr t \<Rightarrow>
     (case getpath m [Key ''sequences'', Index 0, Key ''canvases''] of
        Inl e \<Rightarrow> (Some e, [slv_manifest_url])
      | Inr v \<Rightarrow>
     (case py_iter v of
        Inl e \<Rightarrow> (Some e, [slv_manifest_url])
      | Inr cs \<Rightarrow>
     (case first_error (canvas_lines w cs) of
        Some e \<Rightarrow> (Some e, [slv_manifest_url])
      | None \<Rightarrow>
     (case getpath v [Index 0, Key ''images'', Index 0, Key ''resource'', Key ''service'', Key ''@id''] of
        Inl e \<Rightarrow> (Some e, [slv_manifest_url])
      | Inr i \<Rightarrow>
          (fst (fetch_outcome w 1 (image_requests (format_value (py_str w) i))),
           [slv_manifest_url] @ snd (fetch_outcome w 1 (image_requests (format_value (py_str w) i))))))))))))"

text \<open>
  The exception a run of the named-entity notebook ends with, if any, and the values of
  \<open>tokens\<close>, \<open>tagged_tokens\<close> and \<open>entities\<close> it leaves, told from the results of
  the operations the cells call, in the order of the cells: the five downloads, the
  tokenizer, the tagger, the two lookups of the tag set, the chunker and the drawing.
  The first operation that raises ends the run with its exception.
\<close>

definition ner_outcome ::
  "toolkit \<Rightarrow> error option \<times> string list option \<times> (string \<times> string) list option \<times> tree option"
  where
  "ner_outcome tk =
     (case first_error (map (download tk)
             [''punkt_tab'', ''averaged_perceptron_tagger_eng'', ''maxent_ne_chunker_tab'',
              ''words'', ''tagsets_json'']) of
        Some e \<Rightarrow> (Some e, None, None, None)
      | None \<Rightarrow>
     (case word_tokenize tk about_slv_text of
        Inl e \<Rightarrow> (Some e, None, None, None)
      | Inr ts \<Rightarrow>
     (case pos_tag tk ts of
        Inl e \<Rightarrow> (Some e, Some ts, None, None)
      | Inr tg \<Rightarrow>
     (case upenn_tagset tk ''NNP'' of
        Inl e \<Rightarrow> (Some e, Some ts, Some tg, None)
      | Inr d1 \<Rightarrow>
     (case upenn_tagset tk ''NN*'' of
        Inl e \<Rightarrow> (Some e, Some ts, Some tg, None)
      | Inr d2 \<Rightarrow>
     (case ne_chunk tk tg of
        Inl e \<Rightarrow> (Some e, Some ts, Some tg, None)
      | Inr en \<Rightarrow>
     (case draw_tree tk en of
        Inl e \<Rightarrow> (Some e, Some ts, Some tg, Some en)
      | Inr d \<Rightarrow> (None, Some ts, Some tg, Some en))))))))"

text \<open>
  A decoder that fails on the third image, a network that is lost after the manifest,
  and a chunker without its dataset.
\<close>

definition undecodable_world :: world where
  "undecodable_world =
     slv_world\<lparr>image_open :=
       (\<lambda>raw. if raw = image_request_form slv_image_id ''full'' ''pct:10'' ''0'' ''gray'' ''jpg''
              then Inl (Raised ''UnidentifiedImageError'') else Inr raw)\<rparr>"

definition imageless_world :: world where
  "imageless_world =
     slv_world\<lparr>http_get := (\<lambda>n u. if n = 0 then Inr u else Inl (Raised ''ConnectionError''))\<rparr>"

definition unchunked_toolkit :: toolkit where
  "unchunked_toolkit = recorded_toolkit\<lparr>ne_chunk := (\<lambda>tg. Inl missing)\<rparr>"


text \<open>
  The quoted manifest with the second image entry in its canvas, and the server that
  answers with it.
\<close>

definition crowded_manifest :: json where
  "crowded_manifest = JObj
     [(''attribution'', JStr ''This work is out of copyright''),
      (''description'', JStr []),
      (''label'', JStr ''[Berkshire pig with points marked on image]''),
      (''sequences'', JArr [JObj [(''canvases'', JArr [crowded_canvas])]])]"

definition crowded_world :: world where
  "crowded_world = slv_world\<lparr>json_loads := (\<lambda>b. Inr crowded_manifest)\<rparr>"

section \<open>Properties\<close>

subsection \<open>Running statement lists\<close>

lemma run_stmts_append:
  "run_stmts (xs @ ys) s =
     (case run_stmts xs s of (s', None) \<Rightarrow> run_stmts ys s' | (s', Some e) \<Rightarrow> (s', Some e))"
  by (induction xs arbitrary: s) (auto split: prod.splits option.splits)


lemma name_lookup_simps [simp]:
  "name_lookup n None = Inl (NameError n)" "name_lookup n (Some x) = Inr x"
  by (simp_all add: name_lookup_def)

subsection \<open>What the loop leaves unchanged\<close>

lemma loop_body_frame:
  "run_stmts (loop_body w c) s = (s', r) \<Longrightarrow> s' = s\<lparr>canvas := canvas s', out := out s'\<rparr>"
  by (auto simp: loop_body_def bind_canvas_def print_field_def split: sum.splits prod.splits option.splits)

lemma loop_frame:
  "run_stmts (concat (map (loop_body w) cs)) s = (s', r) \<Longrightarrow> s' = s\<lparr>canvas := canvas s', out := out s'\<rparr>"
proof (induction cs arbitrary: s)
  case Nil
  then show ?case by auto
next
  case (Cons c cs)
  obtain s1 r1 where b: "run_stmts (loop_body w c) s = (s1, r1)" by force
  from loop_body_frame[OF b] have f1: "s1 = s\<lparr>canvas := canvas s1, out := out s1\<rparr>" .
  show ?case
  proof (cases r1)
    case None
    with Cons.prems b have "run_stmts (concat (map (loop_body w) cs)) s1 = (s', r)"
      by (simp add: run_stmts_append)
    from Cons.IH[OF this] have "s' = s1\<lparr>canvas := canvas s', out := out s'\<rparr>" .
    also from f1 have "\<dots> = (s\<lparr>canvas := canvas s1, out := out s1\<rparr>)\<lparr>canvas := canvas s', out := out s'\<rparr>"
      by (rule arg_cong)
    also have "\<dots> = s\<lparr>canvas := canvas s', out := out s'\<rparr>" by simp
    finally show ?thesis .
  next
    case (Some e)
    with Cons.prems b have "s' = s1" by (simp add: run_stmts_append)
    then show ?thesis using f1 by simp
  qed
qed

lemma canvas_loop_frame:
  "canvas_loop w s = (s', r) \<Longrightarrow> s' = s\<lparr>canvas := canvas s', out := out s'\<rparr>"
  by (auto simp: canvas_loop_def split: sum.splits dest: loop_frame)



lemma run_cells_Nil: "run_cells [] s = (s, None)"
  by (simp add: run_cells_def)

lemma run_cells_Cons:
  "run_cells (c # cs) s =
     (case run_stmts c s of (s', None) \<Rightarrow> run_cells cs s' | (s', Some e) \<Rightarrow> (s', Some e))"
  by (simp add: run_cells_def run_stmts_append split: prod.splits option.splits)

lemma run_cells_ok_Cons:
  "run_cells (c # cs) s = (s', None) \<longleftrightarrow>
     (\<exists>s1. run_stmts c s = (s1, None) \<and> run_cells cs s1 = (s', None))"
  by (auto simp: run_cells_Cons split: prod.splits option.splits)

subsection \<open>The effect of each cell\<close>

lemma manifest_cell_run:
  assumes "ie_pid s = Some p"
  shows "run_stmts (manifest_cell w) s =
     (case http_get w (length (gets s)) (presentation_manifest_form ''https://rosetta.slv.vic.gov.au'' p) of
        Inl e \<Rightarrow>
          (s\<lparr>manifest_url := Some (presentation_manifest_form ''https://rosetta.slv.vic.gov.au'' p),
             gets := gets s @ [presentation_manifest_form ''https://rosetta.slv.vic.gov.au'' p]\<rparr>, Some e)
      | Inr body \<Rightarrow>
          (case json_loads w body of
             Inl e \<Rightarrow>
               (s\<lparr>manifest_url := Some (presentation_manifest_form ''https://rosetta.slv.vic.gov.au'' p),
                  gets := gets s @ [presentation_manifest_form ''https://rosetta.slv.vic.gov.au'' p],
                  response := Some body\<rparr>, Some e)
           | Inr m \<Rightarrow>
               (s\<lparr>manifest_url := Some (presentation_manifest_form ''https://rosetta.slv.vic.gov.au'' p),
                  gets := gets s @ [presentation_manifest_form ''https://rosetta.slv.vic.gov.au'' p],
                  response := Some body, manifest := Some m, out := out s @ [PPrint m]\<rparr>, None)))"
  using assms
  by (simp add: manifest_cell_def set_manifest_url_def get_manifest_def parse_manifest_def
      pprint_manifest_def presentation_manifest_form_def split: sum.splits)

lemma attribution_cell_ok:
  assumes "run_stmts (attribution_cell w) s = (s', None)" "manifest s = Some m"
  shows "\<exists>a t. getpath m [Key ''attribution''] = Inr a \<and> getpath m [Key ''label''] = Inr t \<and>
     s' = s\<lparr>attribution := Some a, title := Some t,
            out := out s @ [Echo (JStr (''Copyright:  '' @ format_value (py_str w) a
                                 @ ''. Title: '' @ format_value (py_str w) t))]\<rparr>"
  using assms
  by (auto simp: attribution_cell_def set_attribution_def set_title_def echo_copyright_def
      eval_path_def split: sum.splits)

lemma canvases_cell_ok:
  assumes "run_stmts canvases_cell s = (s', None)" "manifest s = Some m"
  shows "\<exists>cs. getpath m [Key ''sequences'', Index 0, Key ''canvases''] = Inr cs \<and>
     s' = s\<lparr>canvases := Some cs, out := out s @ echo cs\<rparr>"
  using assms
  by (auto simp: canvases_cell_def set_canvases_def echo_canvases_def
      eval_path_def simp del: getpath.simps split: sum.splits)

lemma loop_cell_frame:
  assumes "run_stmts (loop_cell w) s = (s', r)"
  shows "s' = s\<lparr>canvas := canvas s', out := out s'\<rparr>"
  using assms
  by (auto simp: loop_cell_def split: prod.splits option.splits dest: canvas_loop_frame)

lemma image_id_cell_ok:
  assumes "run_stmts image_id_cell s = (s', None)" "canvases s = Some cs"
  shows "\<exists>i. getpath cs [Index 0, Key ''images'', Index 0, Key ''resource'', Key ''service'', Key ''@id''] = Inr i \<and>
     s' = s\<lparr>image_id := Some i, out := out s @ echo i\<rparr>"
  using assms
  by (auto simp: image_id_cell_def set_image_id_def echo_image_id_def
      eval_path_def simp del: getpath.simps split: sum.splits)

lemma full_image_cell_ok:
  assumes "run_stmts (full_image_cell w) s = (s', None)" "image_id s = Some i"
  shows "\<exists>d. s' = s\<lparr>image_url := Some (image_request_form (format_value (py_str w) i) ''full'' ''max'' ''0'' ''default'' ''jpg''),
      gets := gets s @ [image_request_form (format_value (py_str w) i) ''full'' ''max'' ''0'' ''default'' ''jpg''],
      img := Some d, out := out s @ [Display d]\<rparr>"
  using assms
  by (auto simp: full_image_cell_def set_image_url_full_def fetch_image_def display_img_def
      image_request_form_def split: sum.splits)

lemma size_cell_ok:
  assumes "run_stmts (size_cell w) s = (s', None)" "image_id s = Some i"
  shows "\<exists>d. s' = s\<lparr>region := Some ''full'', rotation := Some ''0'', size_v := Some ''pct:10'',
      quality := Some ''default'',
      image_url := Some (image_request_form (format_value (py_str w) i) ''full'' ''pct:10'' ''0'' ''default'' ''jpg''),
      gets := gets s @ [image_request_form (format_value (py_str w) i) ''full'' ''pct:10'' ''0'' ''default'' ''jpg''],
      img := Some d, out := out s @ [Display d]\<rparr>"
  using assms
  by (auto simp: size_cell_def set_region_def set_rotation_def set_size_def set_quality_def
      set_image_url_def fetch_image_def display_img_def
      image_request_form_def split: sum.splits)

lemma quality_cell_ok:
  assumes "run_stmts (quality_cell w) s = (s', None)" "image_id s = Some i"
    "region s = Some r" "size_v s = Some z" "rotation s = Some t"
  shows "\<exists>d. s' = s\<lparr>quality := Some ''gray'',
      image_url := Some (image_request_form (format_value (py_str w) i) r z t ''gray'' ''jpg''),
      gets := gets s @ [image_request_form (format_value (py_str w) i) r z t ''gray'' ''jpg''],
      img := Some d, out := out s @ [Display d]\<rparr>"
  using assms
  by (auto simp: quality_cell_def set_quality_def
      set_image_url_def fetch_image_def display_img_def
      image_request_form_def split: sum.splits)

lemma region_cell_left_ok:
  assumes "run_stmts (region_cell_left w) s = (s', None)" "image_id s = Some i"
    "rotation s = Some t" "quality s = Some q"
  shows "\<exists>d. s' = s\<lparr>region := Some ''0,1400,2400,2300'', size_v := Some ''pct:15'',
      image_url := Some (image_request_form (format_value (py_str w) i) ''0,1400,2400,2300'' ''pct:15'' t q ''jpg''),
      gets := gets s @ [image_request_form (format_value (py_str w) i) ''0,1400,2400,2300'' ''pct:15'' t q ''jpg''],
      img := Some d, out := out s @ [Display d]\<rparr>"
  using assms
  by (auto simp: region_cell_left_def set_region_def set_size_def
      set_image_url_def fetch_image_def display_img_def
      image_request_form_def split: sum.splits)

lemma region_cell_right_ok:
  assumes "run_stmts (region_cell_right w) s = (s', None)" "image_id s = Some i"
    "size_v s = Some z" "rotation s = Some t" "quality s = Some q"
  shows "\<exists>d. s' = s\<lparr>region := Some ''3400,1400,2700,2700'',
      image_url := Some (image_request_form (format_value (py_str w) i) ''3400,1400,2700,2700'' z t q ''jpg''),
      gets := gets s @ [image_request_form (format_value (py_str w) i) ''3400,1400,2700,2700'' z t q ''jpg''],
      img := Some d, out := out s @ [Display d]\<rparr>"
  using assms
  by (auto simp: region_cell_right_def set_region_def
      set_image_url_def fetch_image_def display_img_def
      image_request_form_def split: sum.splits)

subsection \<open>A run without an exception\<close>

lemma iiif_cells_complete:
  assumes "run_cells (iiif_cells w) s0 = (s, None)"
  shows "\<exists>body m a t cs i.
    http_get w (length (gets s0)) slv_manifest_url = Inr body \<and> json_loads w body = Inr m \<and>
    getpath m [Key ''attribution''] = Inr a \<and> getpath m [Key ''label''] = Inr t \<and>
    getpath m [Key ''sequences'', Index 0, Key ''canvases''] = Inr cs \<and>
    getpath cs [Index 0, Key ''images'', Index 0, Key ''resource'', Key ''service'', Key ''@id''] = Inr i \<and>
    manifest s = Some m \<and> canvases s = Some cs \<and> image_id s = Some i \<and>
    gets s = gets s0 @ slv_manifest_url # image_requests (format_value (py_str w) i) \<and>
    image_url s = Some (last (image_requests (format_value (py_str w) i)))"
proof -
  from assms obtain s1 s2 s3 s4 s5 s6 s7 s8 s9 s10 where
    c1: "run_stmts [set_ie_pid] s0 = (s1, None)" and
    c2: "run_stmts (manifest_cell w) s1 = (s2, None)" and
    c3: "run_stmts (attribution_cell w) s2 = (s3, None)" and
    c4: "run_stmts canvases_cell s3 = (s4, None)" and
    c5: "run_stmts (loop_cell w) s4 = (s5, None)" and
    c6: "run_stmts image_id_cell s5 = (s6, None)" and
    c7: "run_stmts (full_image_cell w) s6 = (s7, None)" and
    c8: "run_stmts (size_cell w) s7 = (s8, None)" and
    c9: "run_stmts (quality_cell w) s8 = (s9, None)" and
    c10: "run_stmts (region_cell_left w) s9 = (s10, None)" and
    c11: "run_stmts (region_cell_right w) s10 = (s, None)"
    unfolding iiif_cells_def run_cells_ok_Cons
    by (auto simp: run_cells_Nil)
  from c1 have e1: "s1 = s0\<lparr>ie_pid := Some ''IE145082''\<rparr>"
    by (simp add: set_ie_pid_def)
  then have p1: "ie_pid s1 = Some ''IE145082''" "gets s1 = gets s0"
    by simp_all
  from c2 manifest_cell_run[OF p1(1), of w] p1(2)
  obtain body m where
    b: "http_get w (length (gets s0)) slv_manifest_url = Inr body" "json_loads w body = Inr m" and
    e2: "manifest s2 = Some m" "gets s2 = gets s0 @ [slv_manifest_url]"
    by (auto simp: slv_manifest_url_def split: sum.splits)
  from attribution_cell_ok[OF c3 e2(1)] obtain a t where
    at: "getpath m [Key ''attribution''] = Inr a" "getpath m [Key ''label''] = Inr t" and
    e3: "manifest s3 = Some m" "gets s3 = gets s0 @ [slv_manifest_url]"
    using e2 by auto
  from canvases_cell_ok[OF c4 e3(1)] obtain cs where
    cs: "getpath m [Key ''sequences'', Index 0, Key ''canvases''] = Inr cs" and
    e4: "manifest s4 = Some m" "canvases s4 = Some cs" "gets s4 = gets s0 @ [slv_manifest_url]"
    using e3 by auto
  from loop_cell_frame[OF c5] have f5: "s5 = s4\<lparr>canvas := canvas s5, out := out s5\<rparr>" .
  have e5: "canvases s5 = Some cs" "gets s5 = gets s0 @ [slv_manifest_url]" "manifest s5 = Some m"
    using arg_cong[OF f5, of canvases] arg_cong[OF f5, of gets] arg_cong[OF f5, of manifest] e4
    by simp_all
  from image_id_cell_ok[OF c6 e5(1)] obtain i where
    i: "getpath cs [Index 0, Key ''images'', Index 0, Key ''resource'', Key ''service'', Key ''@id''] = Inr i" and
    f6: "s6 = s5\<lparr>image_id := Some i, out := out s5 @ echo i\<rparr>"
    by auto
  have e6: "image_id s6 = Some i" "gets s6 = gets s0 @ [slv_manifest_url]"
    "manifest s6 = Some m" "canvases s6 = Some cs"
    using f6 e5 by simp_all
  let ?b = "format_value (py_str w) i"
  from full_image_cell_ok[OF c7 e6(1)] e6
  have e7: "image_id s7 = Some i" "manifest s7 = Some m" "canvases s7 = Some cs"
    "gets s7 = gets s0 @ [slv_manifest_url, image_request_form ?b ''full'' ''max'' ''0'' ''default'' ''jpg'']"
    by auto
  from size_cell_ok[OF c8 e7(1)] e7
  have e8: "image_id s8 = Some i" "region s8 = Some ''full''" "size_v s8 = Some ''pct:10''"
    "rotation s8 = Some ''0''" "manifest s8 = Some m" "canvases s8 = Some cs"
    "gets s8 = gets s0 @ [slv_manifest_url, image_request_form ?b ''full'' ''max'' ''0'' ''default'' ''jpg'',
       image_request_form ?b ''full'' ''pct:10'' ''0'' ''default'' ''jpg'']"
    by auto
  from quality_cell_ok[OF c9 e8(1-4)] e8
  have e9: "image_id s9 = Some i" "rotation s9 = Some ''0''" "quality s9 = Some ''gray''"
    "manifest s9 = Some m" "canvases s9 = Some cs"
    "gets s9 = gets s0 @ [slv_manifest_url, image_request_form ?b ''full'' ''max'' ''0'' ''default'' ''jpg'',
       image_request_form ?b ''full'' ''pct:10'' ''0'' ''default'' ''jpg'',
       image_request_form ?b ''full'' ''pct:10'' ''0'' ''gray'' ''jpg'']"
    by auto
  from region_cell_left_ok[OF c10 e9(1-3)] e9
  have e10: "image_id s10 = Some i" "size_v s10 = Some ''pct:15''" "rotation s10 = Some ''0''"
    "quality s10 = Some ''gray''" "manifest s10 = Some m" "canvases s10 = Some cs"
    "gets s10 = gets s0 @ [slv_manifest_url, image_request_form ?b ''full'' ''max'' ''0'' ''default'' ''jpg'',
       image_request_form ?b ''full'' ''pct:10'' ''0'' ''default'' ''jpg'',
       image_request_form ?b ''full'' ''pct:10'' ''0'' ''gray'' ''jpg'',
       image_request_form ?b ''0,1400,2400,2300'' ''pct:15'' ''0'' ''gray'' ''jpg'']"
    by auto
  from region_cell_right_ok[OF c11 e10(1-4)] e10
  have e11: "image_id s = Some i" "manifest s = Some m" "canvases s = Some cs"
    "image_url s = Some (image_request_form ?b ''3400,1400,2700,2700'' ''pct:15'' ''0'' ''gray'' ''jpg'')"
    "gets s = gets s0 @ slv_manifest_url # image_requests ?b"
    by (auto simp: image_requests_def)
  from b at cs i e11 show ?thesis
    by (simp add: image_requests_def)
qed

lemma run_iiif_complete:
  assumes "run_iiif w = (s, None)"
  shows "\<exists>body m a t cs i.
    http_get w 0 slv_manifest_url = Inr body \<and> json_loads w body = Inr m \<and>
    getpath m [Key ''attribution''] = Inr a \<and> getpath m [Key ''label''] = Inr t \<and>
    getpath m [Key ''sequences'', Index 0, Key ''canvases''] = Inr cs \<and>
    getpath cs [Index 0, Key ''images'', Index 0, Key ''resource'', Key ''service'', Key ''@id''] = Inr i \<and>
    manifest s = Some m \<and> canvases s = Some cs \<and> image_id s = Some i \<and>
    gets s = slv_manifest_url # image_requests (format_value (py_str w) i) \<and>
    image_url s = Some (last (image_requests (format_value (py_str w) i)))"
proof -
  have g: "gets iiif_init = []" by (simp add: iiif_init_def)
  from assms have "run_cells (iiif_cells w) iiif_init = (s, None)"
    by (simp add: run_iiif_def)
  from iiif_cells_complete[OF this] show ?thesis
    unfolding g by simp
qed

subsection \<open>The manifest request\<close>

text \<open>
  Claim C2. For every identifier \<open>ie_pid\<close> the manifest cell builds the URL
  \<open>https://rosetta.slv.vic.gov.au/delivery/iiif/presentation/2.1/\<close> followed by the
  identifier and \<open>/manifest\<close>, which is the documented form of a manifest request;
  it issues one GET, to exactly that URL, and what it binds to \<open>manifest\<close> is the
  response body parsed as JSON. When the GET or the parser raises, the cell ends with
  that exception and \<open>manifest\<close> is left as it was.
\<close>

theorem manifest_request:
  assumes "ie_pid s = Some p"
  shows "manifest_url (fst (run_stmts (manifest_cell w) s)) =
           Some (''https://rosetta.slv.vic.gov.au/delivery/iiif/presentation/2.1/'' @ p @ ''/manifest'')
       \<and> ''https://rosetta.slv.vic.gov.au/delivery/iiif/presentation/2.1/'' @ p @ ''/manifest''
           = presentation_manifest_form ''https://rosetta.slv.vic.gov.au'' p
       \<and> gets (fst (run_stmts (manifest_cell w) s)) =
           gets s @ [''https://rosetta.slv.vic.gov.au/delivery/iiif/presentation/2.1/'' @ p @ ''/manifest'']
       \<and> (case http_get w (length (gets s))
                 (''https://rosetta.slv.vic.gov.au/delivery/iiif/presentation/2.1/'' @ p @ ''/manifest'') of
             Inl e \<Rightarrow>
               snd (run_stmts (manifest_cell w) s) = Some e
               \<and> manifest (fst (run_stmts (manifest_cell w) s)) = manifest s
           | Inr body \<Rightarrow>
               (case json_loads w body of
                  Inl e \<Rightarrow>
                    snd (run_stmts (manifest_cell w) s) = Some e
                    \<and> manifest (fst (run_stmts (manifest_cell w) s)) = manifest s
                | Inr m \<Rightarrow>
                    snd (run_stmts (manifest_cell w) s) = None
                    \<and> manifest (fst (run_stmts (manifest_cell w) s)) = Some m))"
proof -
  have u: "''https://rosetta.slv.vic.gov.au/delivery/iiif/presentation/2.1/'' @ p @ ''/manifest''
           = presentation_manifest_form ''https://rosetta.slv.vic.gov.au'' p"
    by (simp add: presentation_manifest_form_def)
  show ?thesis
    unfolding u manifest_cell_run[OF assms]
    by (simp split: sum.splits)
qed

theorem manifest_request_witness:
  "ie_pid (iiif_init\<lparr>ie_pid := Some ''IE145082''\<rparr>) = Some ''IE145082''
   \<and> manifest_url (fst (run_stmts (manifest_cell slv_world) (iiif_init\<lparr>ie_pid := Some ''IE145082''\<rparr>)))
       = Some ''https://rosetta.slv.vic.gov.au/delivery/iiif/presentation/2.1/IE145082/manifest''
   \<and> gets (fst (run_stmts (manifest_cell slv_world) (iiif_init\<lparr>ie_pid := Some ''IE145082''\<rparr>)))
       = [''https://rosetta.slv.vic.gov.au/delivery/iiif/presentation/2.1/IE145082/manifest'']
   \<and> manifest (fst (run_stmts (manifest_cell slv_world) (iiif_init\<lparr>ie_pid := Some ''IE145082''\<rparr>)))
       = Some slv_manifest
   \<and> snd (run_stmts (manifest_cell slv_world) (iiif_init\<lparr>ie_pid := Some ''IE145082''\<rparr>)) = None"
proof -
  have h: "ie_pid (iiif_init\<lparr>ie_pid := Some ''IE145082''\<rparr>) = Some ''IE145082''" by simp
  have g: "gets (iiif_init\<lparr>ie_pid := Some ''IE145082''\<rparr>) = []" by (simp add: iiif_init_def)
  show ?thesis
    using manifest_request[OF h, of slv_world] h
    by (simp add: g slv_world_def)
qed

subsection \<open>Counting the requests\<close>

lemma appends_nil: "appends_at_most 0 (run_stmts [])"
  by (simp add: appends_at_most_def)

lemma appends_cons:
  assumes "appends_at_most j f" "appends_at_most k (run_stmts fs)"
  shows "appends_at_most (j + k) (run_stmts (f # fs))"
  unfolding appends_at_most_def
proof
  fix s
  obtain s1 r1 where f: "f s = (s1, r1)" by force
  from assms(1) f obtain xs where xs: "gets s1 = gets s @ xs" "length xs \<le> j"
    unfolding appends_at_most_def by (metis fst_conv)
  show "\<exists>xs. gets (fst (run_stmts (f # fs) s)) = gets s @ xs \<and> length xs \<le> j + k"
  proof (cases r1)
    case None
    from assms(2) obtain ys where ys: "gets (fst (run_stmts fs s1)) = gets s1 @ ys" "length ys \<le> k"
      unfolding appends_at_most_def by blast
    with xs f None show ?thesis by (intro exI[of _ "xs @ ys"]) simp
  next
    case (Some e)
    with xs f show ?thesis by (intro exI[of _ xs]) simp
  qed
qed

lemma appends_frame:
  assumes "\<And>s. gets (fst (f s)) = gets s"
  shows "appends_at_most 0 f"
  using assms by (simp add: appends_at_most_def)

lemma appends_simple:
  "appends_at_most 0 set_ie_pid" "appends_at_most 0 set_manifest_url"
  "appends_at_most 0 (parse_manifest w)" "appends_at_most 0 pprint_manifest"
  "appends_at_most 0 set_attribution" "appends_at_most 0 set_title"
  "appends_at_most 0 (echo_copyright w)" "appends_at_most 0 set_canvases"
  "appends_at_most 0 echo_canvases" "appends_at_most 0 set_image_id"
  "appends_at_most 0 echo_image_id" "appends_at_most 0 (set_image_url_full w)"
  "appends_at_most 0 (set_image_url w)" "appends_at_most 0 display_img"
  "appends_at_most 0 (set_region v)" "appends_at_most 0 (set_rotation v)"
  "appends_at_most 0 (set_size v)" "appends_at_most 0 (set_quality v)"
  by (rule appends_frame; simp add: set_ie_pid_def set_manifest_url_def parse_manifest_def
      pprint_manifest_def set_attribution_def set_title_def echo_copyright_def set_canvases_def
      echo_canvases_def set_image_id_def echo_image_id_def set_image_url_full_def
      set_image_url_def display_img_def set_region_def set_rotation_def set_size_def
      set_quality_def split: sum.splits)+

lemma appends_loop: "appends_at_most 0 (canvas_loop w)"
proof (rule appends_frame)
  fix s
  obtain s' r where c: "canvas_loop w s = (s', r)" by force
  from arg_cong[OF canvas_loop_frame[OF c], of gets] c show "gets (fst (canvas_loop w s)) = gets s"
    by simp
qed

lemma appends_get: "appends_at_most 1 (get_manifest w)" "appends_at_most 1 (fetch_image w)"
  by (auto simp: appends_at_most_def get_manifest_def fetch_image_def split: sum.splits)

lemma appends_cells_nil: "appends_at_most 0 (run_cells [])"
  by (simp add: appends_at_most_def run_cells_Nil)

lemma appends_cells_cons:
  assumes "appends_at_most j (run_stmts c)" "appends_at_most k (run_cells cs)"
  shows "appends_at_most (j + k) (run_cells (c # cs))"
  unfolding appends_at_most_def
proof
  fix s
  obtain s1 r1 where f: "run_stmts c s = (s1, r1)" by force
  from assms(1) f obtain xs where xs: "gets s1 = gets s @ xs" "length xs \<le> j"
    unfolding appends_at_most_def by (metis fst_conv)
  show "\<exists>xs. gets (fst (run_cells (c # cs) s)) = gets s @ xs \<and> length xs \<le> j + k"
  proof (cases r1)
    case None
    from assms(2) obtain ys where ys: "gets (fst (run_cells cs s1)) = gets s1 @ ys" "length ys \<le> k"
      unfolding appends_at_most_def by blast
    with xs f None show ?thesis by (intro exI[of _ "xs @ ys"]) (simp add: run_cells_Cons)
  next
    case (Some e)
    with xs f show ?thesis by (intro exI[of _ xs]) (simp add: run_cells_Cons)
  qed
qed

lemmas appends_intros = appends_cons appends_nil appends_simple appends_loop appends_get

lemma appends_after_manifest:
  "appends_at_most 5 (run_cells [attribution_cell w, canvases_cell, loop_cell w,
      image_id_cell, full_image_cell w, size_cell w, quality_cell w,
      region_cell_left w, region_cell_right w])"
proof -
  have c3: "appends_at_most (0 + (0 + (0 + 0))) (run_stmts (attribution_cell w))"
    unfolding attribution_cell_def by (intro appends_intros)
  have c4: "appends_at_most (0 + (0 + 0)) (run_stmts canvases_cell)"
    unfolding canvases_cell_def by (intro appends_intros)
  have c5: "appends_at_most (0 + 0) (run_stmts (loop_cell w))"
    unfolding loop_cell_def by (intro appends_intros)
  have c6: "appends_at_most (0 + (0 + 0)) (run_stmts image_id_cell)"
    unfolding image_id_cell_def by (intro appends_intros)
  have c7: "appends_at_most (0 + (1 + (0 + 0))) (run_stmts (full_image_cell w))"
    unfolding full_image_cell_def by (intro appends_intros)
  have c8: "appends_at_most (0 + (0 + (0 + (0 + (0 + (1 + (0 + 0))))))) (run_stmts (size_cell w))"
    unfolding size_cell_def by (intro appends_intros)
  have c9: "appends_at_most (0 + (0 + (1 + (0 + 0)))) (run_stmts (quality_cell w))"
    unfolding quality_cell_def by (intro appends_intros)
  have c10: "appends_at_most (0 + (0 + (0 + (1 + (0 + 0))))) (run_stmts (region_cell_left w))"
    unfolding region_cell_left_def by (intro appends_intros)
  have c11: "appends_at_most (0 + (0 + (1 + (0 + 0)))) (run_stmts (region_cell_right w))"
    unfolding region_cell_right_def by (intro appends_intros)
  have "appends_at_most (0 + (0 + (0 + (0 + (1 + (1 + (1 + (1 + (1 + 0)))))))))
     (run_cells [attribution_cell w, canvases_cell, loop_cell w,
      image_id_cell, full_image_cell w, size_cell w, quality_cell w,
      region_cell_left w, region_cell_right w])"
    using c3 c4 c5 c6 c7 c8 c9 c10 c11
    by (intro appends_cells_cons appends_cells_nil) simp_all
  moreover have "0 + (0 + (0 + (0 + (1 + (1 + (1 + (1 + (1 + 0)))))))) = (5::nat)"
    by simp
  ultimately show ?thesis by (simp only:)
qed

lemma run_iiif_gets:
  "\<exists>xs. gets (fst (run_iiif w)) = slv_manifest_url # xs \<and> length xs \<le> 5"
proof -
  let ?s1 = "iiif_init\<lparr>ie_pid := Some ''IE145082''\<rparr>"
  let ?rest = "[attribution_cell w, canvases_cell, loop_cell w,
      image_id_cell, full_image_cell w, size_cell w, quality_cell w,
      region_cell_left w, region_cell_right w]"
  have p: "ie_pid ?s1 = Some ''IE145082''" by simp
  have g: "gets ?s1 = []" by (simp add: iiif_init_def)
  obtain s2 r2 where m: "run_stmts (manifest_cell w) ?s1 = (s2, r2)" by force
  with manifest_cell_run[OF p, of w] g have g2: "gets s2 = [slv_manifest_url]"
    by (auto simp: slv_manifest_url_def split: sum.splits)
  have run: "run_iiif w =
     (case r2 of None \<Rightarrow> run_cells ?rest s2 | Some e \<Rightarrow> (s2, Some e))"
    using m
    by (simp add: run_iiif_def iiif_cells_def run_cells_Cons[of "[set_ie_pid]"]
        run_cells_Cons[of "manifest_cell w"] set_ie_pid_def)
  show ?thesis
  proof (cases r2)
    case None
    from appends_after_manifest[of w] obtain ys where
      "gets (fst (run_cells ?rest s2)) = gets s2 @ ys" "length ys \<le> 5"
      unfolding appends_at_most_def by blast
    with run None g2 show ?thesis by simp
  next
    case (Some e)
    with run g2 show ?thesis by simp
  qed
qed

subsection \<open>The run on the quoted manifest\<close>

lemma slv_run:
  "snd (run_iiif slv_world) = None"
  "image_id (fst (run_iiif slv_world)) = Some (JStr slv_image_id)"
  "gets (fst (run_iiif slv_world)) = slv_manifest_url # image_requests slv_image_id"
  by code_simp+

subsection \<open>How many requests a run issues\<close>

text \<open>
  Claim C3, as the notebook has it. A run issues one GET for the manifest, first, and
  then one GET in each of the five cells that request an image: at least one and at
  most six in all, and exactly six when no cell raises.
\<close>

theorem iiif_request_count:
  "1 \<le> length (gets (fst (run_iiif w)))
   \<and> length (gets (fst (run_iiif w))) \<le> 6
   \<and> hd (gets (fst (run_iiif w))) = slv_manifest_url
   \<and> (snd (run_iiif w) = None \<longrightarrow> length (gets (fst (run_iiif w))) = 6)"
proof -
  from run_iiif_gets[of w] obtain xs where
    xs: "gets (fst (run_iiif w)) = slv_manifest_url # xs" "length xs \<le> 5"
    by blast
  have "length (gets (fst (run_iiif w))) = 6" if "snd (run_iiif w) = None"
  proof -
    from that have "run_iiif w = (fst (run_iiif w), None)" by (simp add: prod_eq_iff)
    from run_iiif_complete[OF this] show ?thesis
      by (auto simp: image_requests_def)
  qed
  with xs show ?thesis by simp
qed

theorem iiif_request_count_witness:
  "snd (run_iiif slv_world) = None
   \<and> length (gets (fst (run_iiif slv_world))) = 6
   \<and> hd (gets (fst (run_iiif slv_world))) = slv_manifest_url"
  using iiif_request_count[of slv_world] slv_run(1) by simp

text \<open>
  Claim C3 as stated, that the notebook issues a single GET in all, fails for the
  server that answers every request: the run issues six.
\<close>

theorem single_get_counterexample:
  "gets (fst (run_iiif slv_world)) = slv_manifest_url # image_requests slv_image_id
   \<and> length (gets (fst (run_iiif slv_world))) \<noteq> 1"
  by (simp add: slv_run image_requests_def)

subsection \<open>The image URLs\<close>

text \<open>
  Claim C1, as the notebook has it. Every image URL is the service \<open>@id\<close> followed
  by \<open>/region/size/rotation/quality.jpg\<close>. The first image cell writes the four
  values as literals (\<open>full\<close>, \<open>max\<close>, \<open>0\<close>, \<open>default\<close>); the four later cells
  insert the current values of the variables \<open>region\<close>, \<open>size\<close>, \<open>rotation\<close> and
  \<open>quality\<close>; the format is the literal \<open>jpg\<close> in every cell. A run that meets no
  exception requests the five URLs of \<open>image_requests\<close> in this order.
\<close>

theorem image_url_built:
  "(image_id s = Some i \<longrightarrow>
      set_image_url_full w s =
        (s\<lparr>image_url := Some (image_request_form (format_value (py_str w) i)
                                ''full'' ''max'' ''0'' ''default'' ''jpg'')\<rparr>, None))
   \<and> (image_id s = Some i \<and> region s = Some r \<and> size_v s = Some z
        \<and> rotation s = Some t \<and> quality s = Some q \<longrightarrow>
      set_image_url w s =
        (s\<lparr>image_url := Some (image_request_form (format_value (py_str w) i)
                                r z t q ''jpg'')\<rparr>, None))
   \<and> (run_iiif w = (s', None) \<longrightarrow>
        (\<exists>j. image_id s' = Some j
           \<and> gets s' = slv_manifest_url # image_requests (format_value (py_str w) j)))"
proof (intro conjI impI)
  assume "run_iiif w = (s', None)"
  from run_iiif_complete[OF this]
  show "\<exists>j. image_id s' = Some j
           \<and> gets s' = slv_manifest_url # image_requests (format_value (py_str w) j)"
    by blast
qed (auto simp: set_image_url_full_def set_image_url_def image_request_form_def)

theorem image_url_built_witness:
  "set_image_url_full slv_world slv_namespace =
     (slv_namespace\<lparr>image_url := Some (slv_image_id @ ''/full/max/0/default.jpg'')\<rparr>, None)
   \<and> set_image_url slv_world slv_namespace =
     (slv_namespace\<lparr>image_url := Some (slv_image_id @ ''/full/pct:10/0/default.jpg'')\<rparr>, None)
   \<and> gets (fst (run_iiif slv_world)) =
       [slv_manifest_url,
        service_base ''https'' ''rosetta.slv.vic.gov.au:2083'' ''iiif/2'' ''IE145082:FL21000768.jpg''
          @ ''/full/max/0/default.jpg'',
        slv_image_id @ ''/full/pct:10/0/default.jpg'',
        slv_image_id @ ''/full/pct:10/0/gray.jpg'',
        slv_image_id @ ''/0,1400,2400,2300/pct:15/0/gray.jpg'',
        slv_image_id @ ''/3400,1400,2700,2700/pct:15/0/gray.jpg'']"
proof -
  have r: "run_iiif slv_world = (fst (run_iiif slv_world), None)"
    using slv_run(1) by (simp add: prod_eq_iff)
  have h: "image_id slv_namespace = Some (JStr slv_image_id)" "region slv_namespace = Some ''full''"
    "size_v slv_namespace = Some ''pct:10''" "rotation slv_namespace = Some ''0''"
    "quality slv_namespace = Some ''default''"
    by (simp_all add: slv_namespace_def)
  have b: "service_base ''https'' ''rosetta.slv.vic.gov.au:2083'' ''iiif/2'' ''IE145082:FL21000768.jpg''
      = slv_image_id"
    by (simp add: service_base_def slv_image_id_def)
  show ?thesis
    using image_url_built[of slv_namespace "JStr slv_image_id" slv_world
        "''full''" "''pct:10''" "''0''" "''default''" "fst (run_iiif slv_world)"] r h slv_run(2)
    unfolding b
    by (simp add: format_value_def image_request_form_def image_requests_def)
qed

text \<open>
  Claim C1 as stated, that every image URL is the form filled with the current values
  of the parameters, fails at the first image cell: it builds its URL while none of
  \<open>region\<close>, \<open>size\<close>, \<open>rotation\<close> and \<open>quality\<close> is assigned yet, so that filling the
  form from the namespace raises NameError.
\<close>

theorem image_url_parameters_counterexample:
  "image_url (fst (run_cells (take 7 (iiif_cells slv_world)) iiif_init))
     = Some (image_request_form slv_image_id ''full'' ''max'' ''0'' ''default'' ''jpg'')
   \<and> form_of_namespace slv_world (fst (run_cells (take 7 (iiif_cells slv_world)) iiif_init)) ''jpg''
     = Inl (NameError ''region'')"
  by code_simp

subsection \<open>Reading the image URLs back\<close>

lemma split_last_append:
  assumes "c \<notin> set b"
  shows "split_last c (a @ c # b) = Some (a, b)"
proof -
  have r: "rev (a @ c # b) = rev b @ c # rev a" by simp
  have "takeWhile (\<lambda>x. x \<noteq> c) (rev b @ c # rev a) = rev b"
    by (subst takeWhile_append2) (use assms in auto)
  moreover have "dropWhile (\<lambda>x. x \<noteq> c) (rev b @ c # rev a) = c # rev a"
    by (subst dropWhile_append2) (use assms in auto)
  ultimately show ?thesis
    unfolding split_last_def r by simp
qed

lemma parse_image_request_form:
  assumes "CHR ''/'' \<notin> set r" "CHR ''/'' \<notin> set z" "CHR ''/'' \<notin> set t" "CHR ''/'' \<notin> set q"
    "CHR ''/'' \<notin> set f" "CHR ''.'' \<notin> set f"
  shows "parse_image_request (image_request_form b r z t q f) =
     Some \<lparr>req_base = b, req_region = r, req_size = z, req_rotation = t,
           req_quality = q, req_format = f\<rparr>"
proof -
  have e: "image_request_form b r z t q f
      = (b @ CHR ''/'' # r @ CHR ''/'' # z @ CHR ''/'' # t) @ CHR ''/'' # (q @ CHR ''.'' # f)"
    by (simp add: image_request_form_def)
  have 1: "split_last CHR ''/'' (image_request_form b r z t q f)
      = Some (b @ CHR ''/'' # r @ CHR ''/'' # z @ CHR ''/'' # t, q @ CHR ''.'' # f)"
    unfolding e by (rule split_last_append) (use assms in simp)
  have 2: "split_last CHR ''/'' ((b @ CHR ''/'' # r @ CHR ''/'' # z) @ CHR ''/'' # t)
      = Some (b @ CHR ''/'' # r @ CHR ''/'' # z, t)"
    by (rule split_last_append) (use assms in simp)
  have 3: "split_last CHR ''/'' ((b @ CHR ''/'' # r) @ CHR ''/'' # z) = Some (b @ CHR ''/'' # r, z)"
    by (rule split_last_append) (use assms in simp)
  have 4: "split_last CHR ''/'' (b @ CHR ''/'' # r) = Some (b, r)"
    by (rule split_last_append) (use assms in simp)
  have 5: "split_last CHR ''.'' (q @ CHR ''.'' # f) = Some (q, f)"
    by (rule split_last_append) (use assms in simp)
  show ?thesis
    unfolding parse_image_request_def using 1 2 3 4 5 by simp
qed

text \<open>
  Claim C7. In a run that meets no exception, each of the five image URLs reads back
  as the image identifier taken from the manifest, followed by the region, the size,
  the rotation and \<open>quality.format\<close> of its cell, in this order: \<open>full\<close> or the
  coordinates of a region, \<open>max\<close>, \<open>pct:10\<close> or \<open>pct:15\<close>, \<open>0\<close>, \<open>default\<close> or
  \<open>gray\<close>, and \<open>jpg\<close>.
\<close>

theorem image_urls_parse:
  assumes "run_iiif w = (s, None)"
  shows "\<exists>i. image_id s = Some i \<and> map parse_image_request (tl (gets s)) =
     [Some \<lparr>req_base = format_value (py_str w) i, req_region = ''full'', req_size = ''max'',
            req_rotation = ''0'', req_quality = ''default'', req_format = ''jpg''\<rparr>,
      Some \<lparr>req_base = format_value (py_str w) i, req_region = ''full'', req_size = ''pct:10'',
            req_rotation = ''0'', req_quality = ''default'', req_format = ''jpg''\<rparr>,
      Some \<lparr>req_base = format_value (py_str w) i, req_region = ''full'', req_size = ''pct:10'',
            req_rotation = ''0'', req_quality = ''gray'', req_format = ''jpg''\<rparr>,
      Some \<lparr>req_base = format_value (py_str w) i, req_region = ''0,1400,2400,2300'',
            req_size = ''pct:15'', req_rotation = ''0'', req_quality = ''gray'',
            req_format = ''jpg''\<rparr>,
      Some \<lparr>req_base = format_value (py_str w) i, req_region = ''3400,1400,2700,2700'',
            req_size = ''pct:15'', req_rotation = ''0'', req_quality = ''gray'',
            req_format = ''jpg''\<rparr>]"
proof -
  from run_iiif_complete[OF assms] obtain i where
    i: "image_id s = Some i"
       "gets s = slv_manifest_url # image_requests (format_value (py_str w) i)"
    by blast
  show ?thesis
    using i by (simp add: image_requests_def parse_image_request_form)
qed

theorem image_urls_parse_witness:
  "run_iiif slv_world = (fst (run_iiif slv_world), None)
   \<and> map parse_image_request (tl (gets (fst (run_iiif slv_world)))) =
     [Some \<lparr>req_base = slv_image_id, req_region = ''full'', req_size = ''max'',
            req_rotation = ''0'', req_quality = ''default'', req_format = ''jpg''\<rparr>,
      Some \<lparr>req_base = slv_image_id, req_region = ''full'', req_size = ''pct:10'',
            req_rotation = ''0'', req_quality = ''default'', req_format = ''jpg''\<rparr>,
      Some \<lparr>req_base = slv_image_id, req_region = ''full'', req_size = ''pct:10'',
            req_rotation = ''0'', req_quality = ''gray'', req_format = ''jpg''\<rparr>,
      Some \<lparr>req_base = slv_image_id, req_region = ''0,1400,2400,2300'',
            req_size = ''pct:15'', req_rotation = ''0'', req_quality = ''gray'',
            req_format = ''jpg''\<rparr>,
      Some \<lparr>req_base = slv_image_id, req_region = ''3400,1400,2700,2700'',
            req_size = ''pct:15'', req_rotation = ''0'', req_quality = ''gray'',
            req_format = ''jpg''\<rparr>]"
proof -
  have r: "run_iiif slv_world = (fst (run_iiif slv_world), None)"
    using slv_run(1) by (simp add: prod_eq_iff)
  show ?thesis
    using image_urls_parse[OF r] r slv_run(2) by (simp add: format_value_def)
qed

subsection \<open>Further images of a canvas\<close>

lemma map_of_first_only:
  "map_of (map (\<lambda>kv. if fst kv = ''images'' then (fst kv, first_only (snd kv)) else kv) kvs) k =
     (if k = ''images'' then map_option first_only (map_of kvs k) else map_of kvs k)"
  by (induction kvs) auto

lemma getitem_first_only: "getitem (first_only v) (Index 0) = getitem v (Index 0)"
proof (cases v)
  case (JArr xs)
  then show ?thesis by (cases xs) (simp_all add: first_only_def)
qed (simp_all add: first_only_def)

lemma getpath_first_image_only:
  "getpath (first_image_only c) (Key ''images'' # Index 0 # ks) =
   getpath c (Key ''images'' # Index 0 # ks)"
proof (cases c)
  case (JObj kvs)
  show ?thesis
  proof (cases "map_of kvs ''images''")
    case None
    with JObj show ?thesis by (simp add: first_image_only_def map_of_first_only)
  next
    case (Some v)
    with JObj show ?thesis
      using getitem_first_only[of v]
      by (simp add: first_image_only_def map_of_first_only)
  qed
qed (simp_all add: first_image_only_def)

lemma loop_body_first_image_only:
  "run_stmts (loop_body w (first_image_only c)) (s\<lparr>canvas := x, canvases := v\<rparr>) =
     ((fst (run_stmts (loop_body w c) s))\<lparr>canvas := Some (first_image_only c), canvases := v\<rparr>,
      snd (run_stmts (loop_body w c) s))"
  unfolding loop_body_def
  by (simp add: bind_canvas_def print_field_def eval_path_def getpath_first_image_only
      del: getpath.simps split: sum.splits)

lemma loop_first_image_only:
  "\<exists>y. run_stmts (concat (map (loop_body w) (map first_image_only cs))) (s\<lparr>canvas := x, canvases := v\<rparr>) =
     ((fst (run_stmts (concat (map (loop_body w) cs)) s))\<lparr>canvas := y, canvases := v\<rparr>,
      snd (run_stmts (concat (map (loop_body w) cs)) s))"
proof (induction cs arbitrary: s x)
  case Nil
  show ?case by (intro exI[of _ x]) simp
next
  case (Cons c cs)
  obtain s1 r1 where b: "run_stmts (loop_body w c) s = (s1, r1)" by force
  have b': "run_stmts (loop_body w (first_image_only c)) (s\<lparr>canvas := x, canvases := v\<rparr>) =
     (s1\<lparr>canvas := Some (first_image_only c), canvases := v\<rparr>, r1)"
    using loop_body_first_image_only[where w = w and c = c and s = s and x = x and v = v] b
    by simp
  show ?case
  proof (cases r1)
    case None
    from Cons.IH[where s = s1 and x = "Some (first_image_only c)"] obtain y where
      "run_stmts (concat (map (loop_body w) (map first_image_only cs)))
         (s1\<lparr>canvas := Some (first_image_only c), canvases := v\<rparr>) =
       ((fst (run_stmts (concat (map (loop_body w) cs)) s1))\<lparr>canvas := y, canvases := v\<rparr>,
        snd (run_stmts (concat (map (loop_body w) cs)) s1))"
      by blast
    with b b' None show ?thesis
      by (intro exI[of _ y]) (simp add: run_stmts_append)
  next
    case (Some e)
    with b b' show ?thesis
      by (intro exI[of _ "Some (first_image_only c)"]) (simp add: run_stmts_append)
  qed
qed

lemma canvas_loop_first_image_only:
  "out (fst (canvas_loop w (s\<lparr>canvases := Some (JArr (map first_image_only cs))\<rparr>))) =
     out (fst (canvas_loop w (s\<lparr>canvases := Some (JArr cs)\<rparr>)))
   \<and> snd (canvas_loop w (s\<lparr>canvases := Some (JArr (map first_image_only cs))\<rparr>)) =
     snd (canvas_loop w (s\<lparr>canvases := Some (JArr cs)\<rparr>))"
proof -
  let ?s = "s\<lparr>canvases := Some (JArr cs)\<rparr>"
  from loop_first_image_only[where w = w and cs = cs and s = ?s and x = "canvas s"
      and v = "Some (JArr (map first_image_only cs))"]
  obtain y where
    "run_stmts (concat (map (loop_body w) (map first_image_only cs)))
        (?s\<lparr>canvas := canvas s, canvases := Some (JArr (map first_image_only cs))\<rparr>) =
     ((fst (run_stmts (concat (map (loop_body w) cs)) ?s))
         \<lparr>canvas := y, canvases := Some (JArr (map first_image_only cs))\<rparr>,
      snd (run_stmts (concat (map (loop_body w) cs)) ?s))"
    by blast
  moreover have "?s\<lparr>canvas := canvas s, canvases := Some (JArr (map first_image_only cs))\<rparr>
      = s\<lparr>canvases := Some (JArr (map first_image_only cs))\<rparr>"
    by simp
  ultimately show ?thesis
    by (simp add: canvas_loop_def)
qed

lemma set_image_id_first_image_only:
  "getpath (JArr (map first_image_only cs))
      (Index 0 # Key ''images'' # Index 0 # ks) =
   getpath (JArr cs) (Index 0 # Key ''images'' # Index 0 # ks)"
  using getpath_first_image_only[of "cs ! 0" ks]
  by (cases cs) (simp_all del: getpath.simps add: getpath.simps(2)[of "JArr _"])

subsection \<open>Exceptions\<close>

lemma iiif_start:
  "run_iiif w =
     (case run_stmts (manifest_cell w) (iiif_init\<lparr>ie_pid := Some ''IE145082''\<rparr>) of
        (s, None) \<Rightarrow>
          (case run_stmts (attribution_cell w) s of
             (s', None) \<Rightarrow>
               run_cells (canvases_cell # [loop_cell w, image_id_cell, full_image_cell w,
                 size_cell w, quality_cell w, region_cell_left w, region_cell_right w]) s'
           | (s', Some e) \<Rightarrow> (s', Some e))
      | (s, Some e) \<Rightarrow> (s, Some e))"
  by (simp add: run_iiif_def iiif_cells_def run_cells_Cons[of "[set_ie_pid]"]
      run_cells_Cons[of "manifest_cell w"] run_cells_Cons[of "attribution_cell w"]
      set_ie_pid_def)

lemma get_raises:
  assumes "http_get w 0 slv_manifest_url = Inl e"
  shows "run_iiif w =
     (iiif_init\<lparr>ie_pid := Some ''IE145082'', manifest_url := Some slv_manifest_url,
        gets := [slv_manifest_url]\<rparr>, Some e)"
proof -
  have p: "ie_pid (iiif_init\<lparr>ie_pid := Some ''IE145082''\<rparr>) = Some ''IE145082''" by simp
  show ?thesis
    unfolding iiif_start manifest_cell_run[OF p]
    using assms by (simp add: slv_manifest_url_def iiif_init_def)
qed

lemma json_raises:
  assumes "http_get w 0 slv_manifest_url = Inr body" "json_loads w body = Inl e"
  shows "run_iiif w =
     (iiif_init\<lparr>ie_pid := Some ''IE145082'', manifest_url := Some slv_manifest_url,
        gets := [slv_manifest_url], response := Some body\<rparr>, Some e)"
proof -
  have p: "ie_pid (iiif_init\<lparr>ie_pid := Some ''IE145082''\<rparr>) = Some ''IE145082''" by simp
  show ?thesis
    unfolding iiif_start manifest_cell_run[OF p]
    using assms by (simp add: slv_manifest_url_def iiif_init_def)
qed

lemma manifest_loaded:
  assumes "http_get w 0 slv_manifest_url = Inr body" "json_loads w body = Inr m"
  shows "run_stmts (manifest_cell w) (iiif_init\<lparr>ie_pid := Some ''IE145082''\<rparr>) =
     (iiif_init\<lparr>ie_pid := Some ''IE145082'', manifest_url := Some slv_manifest_url,
        gets := [slv_manifest_url], response := Some body, manifest := Some m,
        out := [PPrint m]\<rparr>, None)"
proof -
  have p: "ie_pid (iiif_init\<lparr>ie_pid := Some ''IE145082''\<rparr>) = Some ''IE145082''" by simp
  show ?thesis
    unfolding manifest_cell_run[OF p]
    using assms by (simp add: slv_manifest_url_def iiif_init_def)
qed

lemma attribution_missing:
  assumes "http_get w 0 slv_manifest_url = Inr body" "json_loads w body = Inr (JObj kvs)"
    "map_of kvs ''attribution'' = None"
  shows "run_iiif w =
     (iiif_init\<lparr>ie_pid := Some ''IE145082'', manifest_url := Some slv_manifest_url,
        gets := [slv_manifest_url], response := Some body, manifest := Some (JObj kvs),
        out := [PPrint (JObj kvs)]\<rparr>, Some (KeyError (Key ''attribution'')))"
  unfolding iiif_start manifest_loaded[OF assms(1,2)]
  using assms(3)
  by (simp add: attribution_cell_def set_attribution_def eval_path_def iiif_init_def)

lemma label_missing:
  assumes "http_get w 0 slv_manifest_url = Inr body" "json_loads w body = Inr (JObj kvs)"
    "map_of kvs ''attribution'' = Some a" "map_of kvs ''label'' = None"
  shows "run_iiif w =
     (iiif_init\<lparr>ie_pid := Some ''IE145082'', manifest_url := Some slv_manifest_url,
        gets := [slv_manifest_url], response := Some body, manifest := Some (JObj kvs),
        out := [PPrint (JObj kvs)], attribution := Some a\<rparr>, Some (KeyError (Key ''label'')))"
  unfolding iiif_start manifest_loaded[OF assms(1,2)]
  using assms(3,4)
  by (simp add: attribution_cell_def set_attribution_def set_title_def eval_path_def iiif_init_def)

lemma sequences_missing:
  assumes "http_get w 0 slv_manifest_url = Inr body" "json_loads w body = Inr (JObj kvs)"
    "map_of kvs ''attribution'' = Some a" "map_of kvs ''label'' = Some t"
    "map_of kvs ''sequences'' = None"
  shows "run_iiif w =
     (iiif_init\<lparr>ie_pid := Some ''IE145082'', manifest_url := Some slv_manifest_url,
        gets := [slv_manifest_url], response := Some body, manifest := Some (JObj kvs),
        attribution := Some a, title := Some t,
        out := [PPrint (JObj kvs),
                Echo (JStr (''Copyright:  '' @ format_value (py_str w) a
                            @ ''. Title: '' @ format_value (py_str w) t))]\<rparr>,
      Some (KeyError (Key ''sequences'')))"
  unfolding iiif_start manifest_loaded[OF assms(1,2)]
  using assms(3,4,5)
  by (simp add: attribution_cell_def set_attribution_def set_title_def echo_copyright_def
      eval_path_def iiif_init_def run_cells_Cons canvases_cell_def
      set_canvases_def)

lemma tagger_raises:
  assumes "\<forall>n. \<exists>b. download tk n = Inr b" "word_tokenize tk about_slv_text = Inr ts"
    "pos_tag tk ts = Inl e"
  shows "snd (run_ner tk) = Some e \<and> tokens (fst (run_ner tk)) = Some ts
     \<and> tagged_tokens (fst (run_ner tk)) = None \<and> entities (fst (run_ner tk)) = None"
proof -
  from assms(1) obtain b1 b2 b3 b4 b5 where
    "download tk ''punkt_tab'' = Inr b1" "download tk ''averaged_perceptron_tagger_eng'' = Inr b2"
    "download tk ''maxent_ne_chunker_tab'' = Inr b3" "download tk ''words'' = Inr b4"
    "download tk ''tagsets_json'' = Inr b5"
    by metis
  with assms(2,3) show ?thesis
    by (simp add: run_ner_def run_cells_def ner_cells_def download_cell_def download_stmt_def
        download_shown_def set_about_slv_def tokenize_def echo_tokens_def tag_def ner_init_def)
qed

lemma image_get_raises:
  assumes "image_id s = Some i"
    "http_get w (length (gets s))
       (image_request_form (format_value (py_str w) i) ''full'' ''max'' ''0'' ''default'' ''jpg'')
     = Inl e"
  shows "run_stmts (full_image_cell w) s =
     (s\<lparr>image_url := Some (image_request_form (format_value (py_str w) i)
                             ''full'' ''max'' ''0'' ''default'' ''jpg''),
        gets := gets s @ [image_request_form (format_value (py_str w) i)
                            ''full'' ''max'' ''0'' ''default'' ''jpg'']\<rparr>, Some e)"
  using assms
  by (simp add: full_image_cell_def set_image_url_full_def fetch_image_def image_request_form_def)

subsection \<open>The stored outputs\<close>

text \<open>
  The outputs stored in the named-entity notebook are one observation of the toolkit,
  which is a parameter here. They fit together: the 33 tokens spell the sentence
  without its white space, the tagged tokens are these tokens in order, each with a
  tag, and the tree has the tagged tokens as its leaves and three labelled groups.
\<close>

lemma recorded_tokens_spell:
  "length recorded_tokens = 33
   \<and> concat recorded_tokens = filter (\<lambda>c. c \<noteq> CHR '' '' \<and> c \<noteq> CHR 0x0A) about_slv_text"
  by (simp add: recorded_tokens_def about_slv_text_def)

lemma recorded_tagged_tokens: "map fst recorded_tagged = recorded_tokens"
  by (simp add: recorded_tagged_def recorded_tokens_def)

lemma recorded_entities_leaves: "leaves recorded_entities = recorded_tagged"
  by (simp add: recorded_entities_def recorded_tagged_def)

lemma recorded_entities_groups:
  "groups recorded_entities =
     [(''GPE'', [''Melbourne'']),
      (''ORGANIZATION'', [''Melbourne'', ''Public'', ''Library'']),
      (''GPE'', [''Australia''])]"
  by (simp add: recorded_entities_def)

subsection \<open>What the loop prints\<close>

lemma first_error_append:
  "first_error (xs @ ys) = (case first_error xs of None \<Rightarrow> first_error ys | Some e \<Rightarrow> Some e)"
  by (induction xs rule: first_error.induct) simp_all

lemma values_before_error_append:
  "values_before_error (xs @ ys) =
     (case first_error xs of
        None \<Rightarrow> values_before_error xs @ values_before_error ys
      | Some e \<Rightarrow> values_before_error xs)"
  by (induction xs rule: first_error.induct) (simp_all split: option.splits)

lemma loop_body_run:
  "run_stmts (loop_body w c) s =
     (s\<lparr>canvas := Some c,
        out := out s @ map Print (values_before_error (map (field_line w) (canvas_fields c)))\<rparr>,
      first_error (map (field_line w) (canvas_fields c)))"
  by (simp add: loop_body_def bind_canvas_def print_field_def eval_path_def canvas_fields_def
      field_line_def del: getpath.simps split: sum.splits)

lemma loop_run:
  "snd (run_stmts (concat (map (loop_body w) cs)) s) = first_error (canvas_lines w cs)
   \<and> out (fst (run_stmts (concat (map (loop_body w) cs)) s)) =
       out s @ map Print (values_before_error (canvas_lines w cs))"
proof (induction cs arbitrary: s)
  case Nil
  show ?case by (simp add: canvas_lines_def)
next
  case (Cons c cs)
  let ?s1 = "s\<lparr>canvas := Some c,
        out := out s @ map Print (values_before_error (map (field_line w) (canvas_fields c)))\<rparr>"
  have l: "canvas_lines w (c # cs) = map (field_line w) (canvas_fields c) @ canvas_lines w cs"
    by (simp add: canvas_lines_def)
  show ?case
  proof (cases "first_error (map (field_line w) (canvas_fields c))")
    case None
    with Cons.IH[of ?s1] show ?thesis
      unfolding l
      by (simp add: run_stmts_append loop_body_run first_error_append values_before_error_append)
  next
    case (Some e)
    then show ?thesis
      unfolding l
      by (simp add: run_stmts_append loop_body_run first_error_append values_before_error_append)
  qed
qed

lemma canvas_loop_run:
  assumes "canvases s = Some v"
  shows "snd (canvas_loop w s) =
           (case py_iter v of Inl e \<Rightarrow> Some e | Inr cs \<Rightarrow> first_error (canvas_lines w cs))
       \<and> out (fst (canvas_loop w s)) =
           (case py_iter v of
              Inl e \<Rightarrow> out s
            | Inr cs \<Rightarrow> out s @ map Print (values_before_error (canvas_lines w cs)))"
  using assms loop_run[of w _ s]
  by (simp add: canvas_loop_def split: sum.splits)

subsection \<open>The outcome of every cell\<close>

lemma attribution_cell_run:
  assumes "manifest s = Some m"
  shows "run_stmts (attribution_cell w) s =
     (case getpath m [Key ''attribution''] of
        Inl e \<Rightarrow> (s, Some e)
      | Inr a \<Rightarrow>
          (case getpath m [Key ''label''] of
             Inl e \<Rightarrow> (s\<lparr>attribution := Some a\<rparr>, Some e)
           | Inr t \<Rightarrow>
               (s\<lparr>attribution := Some a, title := Some t,
                  out := out s @ [Echo (JStr (''Copyright:  '' @ format_value (py_str w) a
                                 @ ''. Title: '' @ format_value (py_str w) t))]\<rparr>, None)))"
  using assms
  by (simp add: attribution_cell_def set_attribution_def set_title_def echo_copyright_def
      eval_path_def del: getpath.simps split: sum.splits)

lemma canvases_cell_run:
  assumes "manifest s = Some m"
  shows "run_stmts canvases_cell s =
     (case getpath m [Key ''sequences'', Index 0, Key ''canvases''] of
        Inl e \<Rightarrow> (s, Some e)
      | Inr v \<Rightarrow> (s\<lparr>canvases := Some v, out := out s @ echo v\<rparr>, None))"
  using assms
  by (simp add: canvases_cell_def set_canvases_def echo_canvases_def
      eval_path_def del: getpath.simps split: sum.splits)

lemma image_id_cell_run:
  assumes "canvases s = Some v"
  shows "run_stmts image_id_cell s =
     (case getpath v [Index 0, Key ''images'', Index 0, Key ''resource'', Key ''service'',
                      Key ''@id''] of
        Inl e \<Rightarrow> (s, Some e)
      | Inr i \<Rightarrow> (s\<lparr>image_id := Some i, out := out s @ echo i\<rparr>, None))"
  using assms
  by (simp add: image_id_cell_def set_image_id_def echo_image_id_def
      eval_path_def del: getpath.simps split: sum.splits)

lemma full_image_cell_run:
  assumes "image_id s = Some i"
  shows "run_stmts (full_image_cell w) s =
     (case http_get w (length (gets s)) (image_request_form (format_value (py_str w) i) ''full'' ''max'' ''0'' ''default'' ''jpg'') of
        Inl e \<Rightarrow>
          (s\<lparr>image_url := Some (image_request_form (format_value (py_str w) i) ''full'' ''max'' ''0'' ''default'' ''jpg''),
             gets := gets s @ [image_request_form (format_value (py_str w) i) ''full'' ''max'' ''0'' ''default'' ''jpg'']\<rparr>, Some e)
      | Inr raw \<Rightarrow>
          (case image_open w raw of
             Inl e \<Rightarrow>
               (s\<lparr>image_url := Some (image_request_form (format_value (py_str w) i) ''full'' ''max'' ''0'' ''default'' ''jpg''),
                  gets := gets s @ [image_request_form (format_value (py_str w) i) ''full'' ''max'' ''0'' ''default'' ''jpg'']\<rparr>, Some e)
           | Inr d \<Rightarrow>
               (s\<lparr>image_url := Some (image_request_form (format_value (py_str w) i) ''full'' ''max'' ''0'' ''default'' ''jpg''),
                  gets := gets s @ [image_request_form (format_value (py_str w) i) ''full'' ''max'' ''0'' ''default'' ''jpg''],
                  img := Some d, out := out s @ [Display d]\<rparr>, None)))"
  using assms
  by (simp add: full_image_cell_def set_image_url_full_def set_image_url_def fetch_image_def
      display_img_def set_region_def set_rotation_def set_size_def set_quality_def
      image_request_form_def split: sum.splits)

lemma size_cell_run:
  assumes "image_id s = Some i"
  shows "run_stmts (size_cell w) s =
     (case http_get w (length (gets s)) (image_request_form (format_value (py_str w) i) ''full'' ''pct:10'' ''0'' ''default'' ''jpg'') of
        Inl e \<Rightarrow>
          (s\<lparr>region := Some ''full'', rotation := Some ''0'', size_v := Some ''pct:10'',
             quality := Some ''default'', image_url := Some (image_request_form (format_value (py_str w) i) ''full'' ''pct:10'' ''0'' ''default'' ''jpg''),
             gets := gets s @ [image_request_form (format_value (py_str w) i) ''full'' ''pct:10'' ''0'' ''default'' ''jpg'']\<rparr>, Some e)
      | Inr raw \<Rightarrow>
          (case image_open w raw of
             Inl e \<Rightarrow>
               (s\<lparr>region := Some ''full'', rotation := Some ''0'', size_v := Some ''pct:10'',
             quality := Some ''default'', image_url := Some (image_request_form (format_value (py_str w) i) ''full'' ''pct:10'' ''0'' ''default'' ''jpg''),
                  gets := gets s @ [image_request_form (format_value (py_str w) i) ''full'' ''pct:10'' ''0'' ''default'' ''jpg'']\<rparr>, Some e)
           | Inr d \<Rightarrow>
               (s\<lparr>region := Some ''full'', rotation := Some ''0'', size_v := Some ''pct:10'',
             quality := Some ''default'', image_url := Some (image_request_form (format_value (py_str w) i) ''full'' ''pct:10'' ''0'' ''default'' ''jpg''),
                  gets := gets s @ [image_request_form (format_value (py_str w) i) ''full'' ''pct:10'' ''0'' ''default'' ''jpg''],
                  img := Some d, out := out s @ [Display d]\<rparr>, None)))"
  using assms
  by (simp add: size_cell_def set_image_url_full_def set_image_url_def fetch_image_def
      display_img_def set_region_def set_rotation_def set_size_def set_quality_def
      image_request_form_def split: sum.splits)

lemma quality_cell_run:
  assumes "image_id s = Some i" "region s = Some r" "size_v s = Some z" "rotation s = Some t"
  shows "run_stmts (quality_cell w) s =
     (case http_get w (length (gets s)) (image_request_form (format_value (py_str w) i) r z t ''gray'' ''jpg'') of
        Inl e \<Rightarrow>
          (s\<lparr>quality := Some ''gray'', image_url := Some (image_request_form (format_value (py_str w) i) r z t ''gray'' ''jpg''),
             gets := gets s @ [image_request_form (format_value (py_str w) i) r z t ''gray'' ''jpg'']\<rparr>, Some e)
      | Inr raw \<Rightarrow>
          (case image_open w raw of
             Inl e \<Rightarrow>
               (s\<lparr>quality := Some ''gray'', image_url := Some (image_request_form (format_value (py_str w) i) r z t ''gray'' ''jpg''),
                  gets := gets s @ [image_request_form (format_value (py_str w) i) r z t ''gray'' ''jpg'']\<rparr>, Some e)
           | Inr d \<Rightarrow>
               (s\<lparr>quality := Some ''gray'', image_url := Some (image_request_form (format_value (py_str w) i) r z t ''gray'' ''jpg''),
                  gets := gets s @ [image_request_form (format_value (py_str w) i) r z t ''gray'' ''jpg''],
                  img := Some d, out := out s @ [Display d]\<rparr>, None)))"
  using assms
  by (simp add: quality_cell_def set_image_url_full_def set_image_url_def fetch_image_def
      display_img_def set_region_def set_rotation_def set_size_def set_quality_def
      image_request_form_def split: sum.splits)

lemma region_cell_left_run:
  assumes "image_id s = Some i" "rotation s = Some t" "quality s = Some q"
  shows "run_stmts (region_cell_left w) s =
     (case http_get w (length (gets s)) (image_request_form (format_value (py_str w) i) ''0,1400,2400,2300'' ''pct:15'' t q ''jpg'') of
        Inl e \<Rightarrow>
          (s\<lparr>region := Some ''0,1400,2400,2300'', size_v := Some ''pct:15'',
             image_url := Some (image_request_form (format_value (py_str w) i) ''0,1400,2400,2300'' ''pct:15'' t q ''jpg''),
             gets := gets s @ [image_request_form (format_value (py_str w) i) ''0,1400,2400,2300'' ''pct:15'' t q ''jpg'']\<rparr>, Some e)
      | Inr raw \<Rightarrow>
          (case image_open w raw of
             Inl e \<Rightarrow>
               (s\<lparr>region := Some ''0,1400,2400,2300'', size_v := Some ''pct:15'',
             image_url := Some (image_request_form (format_value (py_str w) i) ''0,1400,2400,2300'' ''pct:15'' t q ''jpg''),
                  gets := gets s @ [image_request_form (format_value (py_str w) i) ''0,1400,2400,2300'' ''pct:15'' t q ''jpg'']\<rparr>, Some e)
           | Inr d \<Rightarrow>
               (s\<lparr>region := Some ''0,1400,2400,2300'', size_v := Some ''pct:15'',
             image_url := Some (image_request_form (format_value (py_str w) i) ''0,1400,2400,2300'' ''pct:15'' t q ''jpg''),
                  gets := gets s @ [image_request_form (format_value (py_str w) i) ''0,1400,2400,2300'' ''pct:15'' t q ''jpg''],
                  img := Some d, out := out s @ [Display d]\<rparr>, None)))"
  using assms
  by (simp add: region_cell_left_def set_image_url_full_def set_image_url_def fetch_image_def
      display_img_def set_region_def set_rotation_def set_size_def set_quality_def
      image_request_form_def split: sum.splits)

lemma region_cell_right_run:
  assumes "image_id s = Some i" "size_v s = Some z" "rotation s = Some t" "quality s = Some q"
  shows "run_stmts (region_cell_right w) s =
     (case http_get w (length (gets s)) (image_request_form (format_value (py_str w) i) ''3400,1400,2700,2700'' z t q ''jpg'') of
        Inl e \<Rightarrow>
          (s\<lparr>region := Some ''3400,1400,2700,2700'', image_url := Some (image_request_form (format_value (py_str w) i) ''3400,1400,2700,2700'' z t q ''jpg''),
             gets := gets s @ [image_request_form (format_value (py_str w) i) ''3400,1400,2700,2700'' z t q ''jpg'']\<rparr>, Some e)
      | Inr raw \<Rightarrow>
          (case image_open w raw of
             Inl e \<Rightarrow>
               (s\<lparr>region := Some ''3400,1400,2700,2700'', image_url := Some (image_request_form (format_value (py_str w) i) ''3400,1400,2700,2700'' z t q ''jpg''),
                  gets := gets s @ [image_request_form (format_value (py_str w) i) ''3400,1400,2700,2700'' z t q ''jpg'']\<rparr>, Some e)
           | Inr d \<Rightarrow>
               (s\<lparr>region := Some ''3400,1400,2700,2700'', image_url := Some (image_request_form (format_value (py_str w) i) ''3400,1400,2700,2700'' z t q ''jpg''),
                  gets := gets s @ [image_request_form (format_value (py_str w) i) ''3400,1400,2700,2700'' z t q ''jpg''],
                  img := Some d, out := out s @ [Display d]\<rparr>, None)))"
  using assms
  by (simp add: region_cell_right_def set_image_url_full_def set_image_url_def fetch_image_def
      display_img_def set_region_def set_rotation_def set_size_def set_quality_def
      image_request_form_def split: sum.splits)

lemma images_run:
  assumes "image_id s = Some i"
  shows "snd (run_cells [full_image_cell w, size_cell w, quality_cell w, region_cell_left w,
                         region_cell_right w] s) =
           fst (fetch_outcome w (length (gets s)) (image_requests (format_value (py_str w) i)))
       \<and> gets (fst (run_cells [full_image_cell w, size_cell w, quality_cell w,
                                region_cell_left w, region_cell_right w] s)) =
           gets s @ snd (fetch_outcome w (length (gets s))
                           (image_requests (format_value (py_str w) i)))"
  using assms
  by (simp add: image_requests_def run_cells_Cons run_cells_Nil full_image_cell_run
      size_cell_run quality_cell_run region_cell_left_run region_cell_right_run
      split: sum.splits)

subsection \<open>The outcome of a run\<close>

lemma outcome_from_image_id:
  assumes "canvases s = Some v"
  shows "(snd (run_cells (image_id_cell # [full_image_cell w, size_cell w, quality_cell w, region_cell_left w, region_cell_right w]) s),
          gets (fst (run_cells (image_id_cell # [full_image_cell w, size_cell w, quality_cell w, region_cell_left w, region_cell_right w]) s))) =
     (case getpath v [Index 0, Key ''images'', Index 0, Key ''resource'', Key ''service'', Key ''@id''] of
        Inl e \<Rightarrow> (Some e, gets s)
      | Inr i \<Rightarrow>
          (fst (fetch_outcome w (length (gets s)) (image_requests (format_value (py_str w) i))),
           gets s @ snd (fetch_outcome w (length (gets s)) (image_requests (format_value (py_str w) i)))))"
proof (cases "getpath v [Index 0, Key ''images'', Index 0, Key ''resource'', Key ''service'', Key ''@id'']")
  case (Inl e)
  then show ?thesis
    by (simp add: run_cells_Cons[of image_id_cell] image_id_cell_run[OF assms]
        del: getpath.simps)
next
  case (Inr i)
  let ?s = "s\<lparr>image_id := Some i, out := out s @ echo i\<rparr>"
  have "image_id ?s = Some i" by simp
  from images_run[OF this, of w] Inr show ?thesis
    by (simp add: run_cells_Cons[of image_id_cell] image_id_cell_run[OF assms]
        del: getpath.simps)
qed

lemma outcome_from_loop:
  assumes "canvases s = Some v"
  shows "(snd (run_cells (loop_cell w # image_id_cell # [full_image_cell w, size_cell w, quality_cell w, region_cell_left w, region_cell_right w]) s),
          gets (fst (run_cells (loop_cell w # image_id_cell # [full_image_cell w, size_cell w, quality_cell w, region_cell_left w, region_cell_right w]) s))) =
     (case py_iter v of
        Inl e \<Rightarrow> (Some e, gets s)
      | Inr cs \<Rightarrow>
     (case first_error (canvas_lines w cs) of
        Some e \<Rightarrow> (Some e, gets s)
      | None \<Rightarrow>
     (case getpath v [Index 0, Key ''images'', Index 0, Key ''resource'', Key ''service'', Key ''@id''] of
        Inl e \<Rightarrow> (Some e, gets s)
      | Inr i \<Rightarrow>
          (fst (fetch_outcome w (length (gets s)) (image_requests (format_value (py_str w) i))),
           gets s @ snd (fetch_outcome w (length (gets s)) (image_requests (format_value (py_str w) i)))))))"
proof -
  obtain s5 r5 where l: "canvas_loop w s = (s5, r5)" by force
  from canvas_loop_frame[OF l] have f: "s5 = s\<lparr>canvas := canvas s5, out := out s5\<rparr>" .
  have c5: "canvases s5 = Some v" "gets s5 = gets s"
    using arg_cong[OF f, of canvases] arg_cong[OF f, of gets] assms by simp_all
  have r5: "r5 = (case py_iter v of Inl e \<Rightarrow> Some e
                  | Inr cs \<Rightarrow> first_error (canvas_lines w cs))"
    using canvas_loop_run[OF assms, of w] l by simp
  have run: "run_cells (loop_cell w # image_id_cell # [full_image_cell w, size_cell w, quality_cell w, region_cell_left w, region_cell_right w]) s =
     (case r5 of None \<Rightarrow> run_cells (image_id_cell # [full_image_cell w, size_cell w, quality_cell w, region_cell_left w, region_cell_right w]) s5
      | Some e \<Rightarrow> (s5, Some e))"
    using l by (subst run_cells_Cons) (simp add: loop_cell_def split: option.splits)
  show ?thesis
    unfolding run
    using outcome_from_image_id[OF c5(1), of w] c5(2) r5
    by (simp del: getpath.simps split: sum.splits option.splits)
qed

lemma outcome_from_attribution:
  assumes "manifest s = Some m"
  shows "(snd (run_cells (attribution_cell w # canvases_cell # loop_cell w # image_id_cell # [full_image_cell w, size_cell w, quality_cell w, region_cell_left w, region_cell_right w]) s),
          gets (fst (run_cells (attribution_cell w # canvases_cell # loop_cell w # image_id_cell # [full_image_cell w, size_cell w, quality_cell w, region_cell_left w, region_cell_right w]) s))) =
     (case getpath m [Key ''attribution''] of
        Inl e \<Rightarrow> (Some e, gets s)
      | Inr a \<Rightarrow>
     (case getpath m [Key ''label''] of
        Inl e \<Rightarrow> (Some e, gets s)
      | Inr t \<Rightarrow>
     (case getpath m [Key ''sequences'', Index 0, Key ''canvases''] of
        Inl e \<Rightarrow> (Some e, gets s)
      | Inr v \<Rightarrow>
     (case py_iter v of
        Inl e \<Rightarrow> (Some e, gets s)
      | Inr cs \<Rightarrow>
     (case first_error (canvas_lines w cs) of
        Some e \<Rightarrow> (Some e, gets s)
      | None \<Rightarrow>
     (case getpath v [Index 0, Key ''images'', Index 0, Key ''resource'', Key ''service'', Key ''@id''] of
        Inl e \<Rightarrow> (Some e, gets s)
      | Inr i \<Rightarrow>
          (fst (fetch_outcome w (length (gets s)) (image_requests (format_value (py_str w) i))),
           gets s @ snd (fetch_outcome w (length (gets s)) (image_requests (format_value (py_str w) i))))))))))"
proof (cases "getpath m [Key ''attribution'']")
  case (Inl e)
  then show ?thesis
    by (simp add: run_cells_Cons[of "attribution_cell w"] attribution_cell_run[OF assms]
        del: getpath.simps)
next
  case a: (Inr a)
  show ?thesis
  proof (cases "getpath m [Key ''label'']")
    case (Inl e)
    with a show ?thesis
      by (simp add: run_cells_Cons[of "attribution_cell w"] attribution_cell_run[OF assms]
          del: getpath.simps)
  next
    case t: (Inr t)
    from attribution_cell_run[OF assms, of w] a t obtain s3 where
      r3: "run_stmts (attribution_cell w) s = (s3, None)" and
      m3: "manifest s3 = Some m" and g3: "gets s3 = gets s"
      using assms by simp
    show ?thesis
    proof (cases "getpath m [Key ''sequences'', Index 0, Key ''canvases'']")
      case (Inl e)
      with canvases_cell_run[OF m3] have "run_stmts canvases_cell s3 = (s3, Some e)"
        by simp
      with a t Inl r3 g3 show ?thesis
        by (simp add: run_cells_Cons[of "attribution_cell w"] run_cells_Cons[of canvases_cell]
            del: getpath.simps)
    next
      case v: (Inr v)
      from canvases_cell_run[OF m3] v obtain s4 where
        r4: "run_stmts canvases_cell s3 = (s4, None)" and
        c4: "canvases s4 = Some v" and g4: "gets s4 = gets s"
        using g3 by simp
      note o = outcome_from_loop[OF c4, of w, unfolded g4]
      from a t v r3 r4 show ?thesis
        by (simp add: run_cells_Cons[of "attribution_cell w"] run_cells_Cons[of canvases_cell] o
            del: getpath.simps)
    qed
  qed
qed

lemma run_iiif_outcome:
  "(snd (run_iiif w), gets (fst (run_iiif w))) = iiif_outcome w"
proof -
  let ?s1 = "iiif_init\<lparr>ie_pid := Some ''IE145082''\<rparr>"
  have p: "ie_pid ?s1 = Some ''IE145082''" by simp
  have g: "gets ?s1 = []" by (simp add: iiif_init_def)
  have start: "run_iiif w =
     (case run_stmts (manifest_cell w) ?s1 of
        (s, None) \<Rightarrow>
          run_cells (attribution_cell w # canvases_cell # loop_cell w # image_id_cell # [full_image_cell w, size_cell w, quality_cell w, region_cell_left w, region_cell_right w]) s
      | (s, Some e) \<Rightarrow> (s, Some e))"
    by (simp add: run_iiif_def iiif_cells_def run_cells_Cons[of "[set_ie_pid]"]
        run_cells_Cons[of "manifest_cell w"] set_ie_pid_def)
  show ?thesis
  proof (cases "http_get w 0 slv_manifest_url")
    case (Inl e)
    then show ?thesis
      unfolding start manifest_cell_run[OF p] iiif_outcome_def
      by (simp add: g slv_manifest_url_def)
  next
    case b: (Inr body)
    show ?thesis
    proof (cases "json_loads w body")
      case (Inl e)
      with b show ?thesis
        unfolding start manifest_cell_run[OF p] iiif_outcome_def
        by (simp add: g slv_manifest_url_def)
    next
      case (Inr m)
      from manifest_cell_run[OF p, of w] b Inr obtain s2 where
        r2: "run_stmts (manifest_cell w) ?s1 = (s2, None)" and
        m2: "manifest s2 = Some m" and g2: "gets s2 = [slv_manifest_url]"
        by (simp add: g slv_manifest_url_def)
      have len: "length [slv_manifest_url] = 1" by simp
      note o = outcome_from_attribution[OF m2, of w, unfolded g2 len]
      from b Inr show ?thesis
        unfolding start r2 iiif_outcome_def
        by (simp add: o del: getpath.simps)
    qed
  qed
qed

subsection \<open>No exception is handled\<close>

lemma run_ner_outcome:
  "(snd (run_ner tk), tokens (fst (run_ner tk)), tagged_tokens (fst (run_ner tk)),
    entities (fst (run_ner tk))) = ner_outcome tk"
  unfolding run_ner_def run_cells_def ner_cells_def download_cell_def ner_outcome_def
  by (simp add: download_stmt_def download_shown_def set_about_slv_def
      tokenize_def echo_tokens_def tag_def echo_tagged_def help_tagset_def chunk_def draw_def
      ner_init_def split: sum.splits)

text \<open>
  Claim C8. No cell handles an exception: the run of either notebook ends with the
  exception of the first operation that raises, whichever it is, and without one
  exactly when none raises. For the IIIF notebook the operations are the GET of the
  manifest, the parser, every subscript of the manifest, the iteration over the
  canvases and every field read in the loop, the subscripts for the image identifier,
  and the GET and the decoding of each of the five images; a request is issued once
  and none after the exception. For the named-entity notebook they are the downloads,
  the tokenizer, the tagger, the lookups of the tag set, the chunker and the drawing;
  a variable whose cell comes after the exception is left unassigned. For the failures
  the specification names, the namespace the run leaves is the one at the failure:
  a GET of the manifest that raises, a body that is not JSON, a manifest without
  \<open>attribution\<close>, \<open>label\<close> or \<open>sequences\<close>, a GET of an image that raises, and a tagger
  that raises for want of its dataset.
\<close>

theorem exceptions_propagate:
  "(snd (run_iiif w), gets (fst (run_iiif w))) = iiif_outcome w
   \<and> (snd (run_ner tk), tokens (fst (run_ner tk)), tagged_tokens (fst (run_ner tk)),
       entities (fst (run_ner tk))) = ner_outcome tk
   \<and> (http_get w 0 slv_manifest_url = Inl e \<longrightarrow>
      run_iiif w =
        (iiif_init\<lparr>ie_pid := Some ''IE145082'', manifest_url := Some slv_manifest_url,
           gets := [slv_manifest_url]\<rparr>, Some e))
   \<and> (http_get w 0 slv_manifest_url = Inr body \<and> json_loads w body = Inl e \<longrightarrow>
      run_iiif w =
        (iiif_init\<lparr>ie_pid := Some ''IE145082'', manifest_url := Some slv_manifest_url,
           gets := [slv_manifest_url], response := Some body\<rparr>, Some e))
   \<and> (http_get w 0 slv_manifest_url = Inr body \<and> json_loads w body = Inr (JObj kvs)
        \<and> map_of kvs ''attribution'' = None \<longrightarrow>
      run_iiif w =
        (iiif_init\<lparr>ie_pid := Some ''IE145082'', manifest_url := Some slv_manifest_url,
           gets := [slv_manifest_url], response := Some body, manifest := Some (JObj kvs),
           out := [PPrint (JObj kvs)]\<rparr>, Some (KeyError (Key ''attribution''))))
   \<and> (http_get w 0 slv_manifest_url = Inr body \<and> json_loads w body = Inr (JObj kvs)
        \<and> map_of kvs ''attribution'' = Some a \<and> map_of kvs ''label'' = None \<longrightarrow>
      run_iiif w =
        (iiif_init\<lparr>ie_pid := Some ''IE145082'', manifest_url := Some slv_manifest_url,
           gets := [slv_manifest_url], response := Some body, manifest := Some (JObj kvs),
           out := [PPrint (JObj kvs)], attribution := Some a\<rparr>,
         Some (KeyError (Key ''label''))))
   \<and> (http_get w 0 slv_manifest_url = Inr body \<and> json_loads w body = Inr (JObj kvs)
        \<and> map_of kvs ''attribution'' = Some a \<and> map_of kvs ''label'' = Some t
        \<and> map_of kvs ''sequences'' = None \<longrightarrow>
      run_iiif w =
        (iiif_init\<lparr>ie_pid := Some ''IE145082'', manifest_url := Some slv_manifest_url,
           gets := [slv_manifest_url], response := Some body, manifest := Some (JObj kvs),
           attribution := Some a, title := Some t,
           out := [PPrint (JObj kvs),
                   Echo (JStr (''Copyright:  '' @ format_value (py_str w) a
                               @ ''. Title: '' @ format_value (py_str w) t))]\<rparr>,
         Some (KeyError (Key ''sequences''))))
   \<and> (image_id s = Some i
        \<and> http_get w (length (gets s))
             (image_request_form (format_value (py_str w) i) ''full'' ''max'' ''0'' ''default'' ''jpg'')
           = Inl e \<longrightarrow>
      run_stmts (full_image_cell w) s =
        (s\<lparr>image_url := Some (image_request_form (format_value (py_str w) i)
                                ''full'' ''max'' ''0'' ''default'' ''jpg''),
           gets := gets s @ [image_request_form (format_value (py_str w) i)
                               ''full'' ''max'' ''0'' ''default'' ''jpg'']\<rparr>, Some e))
   \<and> ((\<forall>name. \<exists>b. download tk name = Inr b) \<and> word_tokenize tk about_slv_text = Inr ts
        \<and> pos_tag tk ts = Inl e \<longrightarrow>
      snd (run_ner tk) = Some e \<and> tokens (fst (run_ner tk)) = Some ts
      \<and> tagged_tokens (fst (run_ner tk)) = None \<and> entities (fst (run_ner tk)) = None)"
proof (intro conjI)
  show "(snd (run_iiif w), gets (fst (run_iiif w))) = iiif_outcome w"
    by (rule run_iiif_outcome)
  show "(snd (run_ner tk), tokens (fst (run_ner tk)), tagged_tokens (fst (run_ner tk)),
       entities (fst (run_ner tk))) = ner_outcome tk"
    by (rule run_ner_outcome)
qed ((intro impI, (elim conjE)?,
      (rule get_raises json_raises attribution_missing label_missing sequences_missing
         image_get_raises tagger_raises; assumption))+)

lemma failing_outcomes:
  "iiif_outcome offline_world = (Some (Raised ''ConnectionError''), [slv_manifest_url])"
  "iiif_outcome garbled_world = (Some (Raised ''JSONDecodeError''), [slv_manifest_url])"
  "iiif_outcome (bare_world (JObj [(''attribution'', JNull), (''label'', JNull),
       (''sequences'', JArr [JObj [(''canvases'', JArr [slv_canvas, JNull])]])])) =
     (Some TypeError, [slv_manifest_url])"
  "iiif_outcome imageless_world =
     (Some (Raised ''ConnectionError''),
      [slv_manifest_url, image_request_form slv_image_id ''full'' ''max'' ''0'' ''default'' ''jpg''])"
  "iiif_outcome undecodable_world =
     (Some (Raised ''UnidentifiedImageError''), slv_manifest_url # take 3 (image_requests slv_image_id))"
  "iiif_outcome slv_world = (None, slv_manifest_url # image_requests slv_image_id)"
  "ner_outcome untrained_toolkit = (Some missing, Some recorded_tokens, None, None)"
  "ner_outcome unchunked_toolkit =
     (Some missing, Some recorded_tokens, Some recorded_tagged, None)"
  "ner_outcome recorded_toolkit =
     (None, Some recorded_tokens, Some recorded_tagged, Some recorded_entities)"
  by code_simp+

theorem exceptions_propagate_witness:
  "(snd (run_iiif offline_world), gets (fst (run_iiif offline_world))) =
     (Some (Raised ''ConnectionError''), [slv_manifest_url])
   \<and> (snd (run_iiif garbled_world), gets (fst (run_iiif garbled_world))) =
     (Some (Raised ''JSONDecodeError''), [slv_manifest_url])
   \<and> (snd (run_iiif (bare_world (JObj [(''attribution'', JNull), (''label'', JNull),
          (''sequences'', JArr [JObj [(''canvases'', JArr [slv_canvas, JNull])]])]))),
       gets (fst (run_iiif (bare_world (JObj [(''attribution'', JNull), (''label'', JNull),
          (''sequences'', JArr [JObj [(''canvases'', JArr [slv_canvas, JNull])]])]))))) =
     (Some TypeError, [slv_manifest_url])
   \<and> (snd (run_iiif imageless_world), gets (fst (run_iiif imageless_world))) =
     (Some (Raised ''ConnectionError''),
      [slv_manifest_url, image_request_form slv_image_id ''full'' ''max'' ''0'' ''default'' ''jpg''])
   \<and> (snd (run_iiif undecodable_world), gets (fst (run_iiif undecodable_world))) =
     (Some (Raised ''UnidentifiedImageError''), slv_manifest_url # take 3 (image_requests slv_image_id))
   \<and> (snd (run_iiif slv_world), gets (fst (run_iiif slv_world))) =
     (None, slv_manifest_url # image_requests slv_image_id)
   \<and> (snd (run_ner untrained_toolkit), tokens (fst (run_ner untrained_toolkit)),
       tagged_tokens (fst (run_ner untrained_toolkit)), entities (fst (run_ner untrained_toolkit))) =
     (Some missing, Some recorded_tokens, None, None)
   \<and> (snd (run_ner unchunked_toolkit), tokens (fst (run_ner unchunked_toolkit)),
       tagged_tokens (fst (run_ner unchunked_toolkit)), entities (fst (run_ner unchunked_toolkit))) =
     (Some missing, Some recorded_tokens, Some recorded_tagged, None)
   \<and> (snd (run_ner recorded_toolkit), tokens (fst (run_ner recorded_toolkit)),
       tagged_tokens (fst (run_ner recorded_toolkit)), entities (fst (run_ner recorded_toolkit))) =
     (None, Some recorded_tokens, Some recorded_tagged, Some recorded_entities)
   \<and> run_iiif offline_world =
     (iiif_init\<lparr>ie_pid := Some ''IE145082'', manifest_url := Some slv_manifest_url,
        gets := [slv_manifest_url]\<rparr>, Some (Raised ''ConnectionError''))
   \<and> run_iiif garbled_world =
     (iiif_init\<lparr>ie_pid := Some ''IE145082'', manifest_url := Some slv_manifest_url,
        gets := [slv_manifest_url], response := Some slv_manifest_url\<rparr>,
      Some (Raised ''JSONDecodeError''))
   \<and> snd (run_iiif (bare_world (JObj []))) = Some (KeyError (Key ''attribution''))
   \<and> snd (run_iiif (bare_world (JObj [(''attribution'', JNull)]))) = Some (KeyError (Key ''label''))
   \<and> snd (run_iiif (bare_world (JObj [(''attribution'', JNull), (''label'', JNull)])))
       = Some (KeyError (Key ''sequences''))
   \<and> snd (run_stmts (full_image_cell imageless_world) (slv_namespace\<lparr>gets := [slv_manifest_url]\<rparr>))
       = Some (Raised ''ConnectionError'')
   \<and> snd (run_ner untrained_toolkit) = Some missing"
proof -
  note P = exceptions_propagate
  note I = P[THEN conjunct1]
  note N = P[THEN conjunct2, THEN conjunct1]
  have o: "http_get offline_world 0 slv_manifest_url = Inl (Raised ''ConnectionError'')"
    by (simp add: offline_world_def slv_world_def)
  have 1: "run_iiif offline_world =
     (iiif_init\<lparr>ie_pid := Some ''IE145082'', manifest_url := Some slv_manifest_url,
        gets := [slv_manifest_url]\<rparr>, Some (Raised ''ConnectionError''))"
    by (rule P[where w = offline_world, THEN conjunct2, THEN conjunct2, THEN conjunct1,
          THEN mp, OF o])
  have g: "http_get garbled_world 0 slv_manifest_url = Inr slv_manifest_url
      \<and> json_loads garbled_world slv_manifest_url = Inl (Raised ''JSONDecodeError'')"
    by (simp add: garbled_world_def slv_world_def)
  have 2: "run_iiif garbled_world =
     (iiif_init\<lparr>ie_pid := Some ''IE145082'', manifest_url := Some slv_manifest_url,
        gets := [slv_manifest_url], response := Some slv_manifest_url\<rparr>,
      Some (Raised ''JSONDecodeError''))"
    by (rule P[where w = garbled_world, THEN conjunct2, THEN conjunct2, THEN conjunct2,
          THEN conjunct1, THEN mp, OF g])
  have b3: "http_get (bare_world (JObj [])) 0 slv_manifest_url = Inr slv_manifest_url
      \<and> json_loads (bare_world (JObj [])) slv_manifest_url = Inr (JObj [])
      \<and> map_of [] ''attribution'' = (None :: json option)"
    by (simp add: bare_world_def slv_world_def)
  have 3: "snd (run_iiif (bare_world (JObj []))) = Some (KeyError (Key ''attribution''))"
    using P[where w = "bare_world (JObj [])", THEN conjunct2, THEN conjunct2, THEN conjunct2,
          THEN conjunct2, THEN conjunct1, THEN mp, OF b3]
    by simp
  let ?m4 = "[(''attribution'', JNull)]"
  have b4: "http_get (bare_world (JObj ?m4)) 0 slv_manifest_url = Inr slv_manifest_url
      \<and> json_loads (bare_world (JObj ?m4)) slv_manifest_url = Inr (JObj ?m4)
      \<and> map_of ?m4 ''attribution'' = Some JNull \<and> map_of ?m4 ''label'' = None"
    by (simp add: bare_world_def slv_world_def)
  have 4: "snd (run_iiif (bare_world (JObj ?m4))) = Some (KeyError (Key ''label''))"
    using P[where w = "bare_world (JObj ?m4)", THEN conjunct2, THEN conjunct2, THEN conjunct2,
          THEN conjunct2, THEN conjunct2, THEN conjunct1, THEN mp, OF b4]
    by simp
  let ?m5 = "[(''attribution'', JNull), (''label'', JNull)]"
  have b5: "http_get (bare_world (JObj ?m5)) 0 slv_manifest_url = Inr slv_manifest_url
      \<and> json_loads (bare_world (JObj ?m5)) slv_manifest_url = Inr (JObj ?m5)
      \<and> map_of ?m5 ''attribution'' = Some JNull \<and> map_of ?m5 ''label'' = Some JNull
      \<and> map_of ?m5 ''sequences'' = None"
    by (simp add: bare_world_def slv_world_def)
  have 5: "snd (run_iiif (bare_world (JObj ?m5))) = Some (KeyError (Key ''sequences''))"
    using P[where w = "bare_world (JObj ?m5)", THEN conjunct2, THEN conjunct2, THEN conjunct2,
          THEN conjunct2, THEN conjunct2, THEN conjunct2, THEN conjunct1, THEN mp, OF b5]
    by simp
  let ?s = "slv_namespace\<lparr>gets := [slv_manifest_url]\<rparr>"
  have b6: "image_id ?s = Some (JStr slv_image_id)
      \<and> http_get imageless_world (length (gets ?s))
           (image_request_form (format_value (py_str imageless_world) (JStr slv_image_id))
              ''full'' ''max'' ''0'' ''default'' ''jpg'')
         = Inl (Raised ''ConnectionError'')"
    by (simp add: slv_namespace_def imageless_world_def slv_world_def)
  have 6: "snd (run_stmts (full_image_cell imageless_world) ?s) = Some (Raised ''ConnectionError'')"
    using P[where w = imageless_world and s = ?s, THEN conjunct2, THEN conjunct2,
          THEN conjunct2, THEN conjunct2, THEN conjunct2, THEN conjunct2, THEN conjunct2,
          THEN conjunct1, THEN mp, OF b6]
    by simp
  have u: "(\<forall>name. \<exists>b. download untrained_toolkit name = Inr b)
      \<and> word_tokenize untrained_toolkit about_slv_text = Inr recorded_tokens
      \<and> pos_tag untrained_toolkit recorded_tokens = Inl missing"
    by (auto simp: untrained_toolkit_def recorded_toolkit_def)
  note 7 = P[where tk = untrained_toolkit, THEN conjunct2, THEN conjunct2, THEN conjunct2,
          THEN conjunct2, THEN conjunct2, THEN conjunct2, THEN conjunct2, THEN conjunct2,
          THEN mp, OF u, THEN conjunct1]
  show ?thesis
    unfolding I N failing_outcomes
    using 1 2 3 4 5 6 7 by (intro conjI) simp_all
qed

subsection \<open>From one cell to the next\<close>





subsection \<open>What depends on the further images\<close>

lemma canvas_fields_first_image_only: "canvas_fields (first_image_only c) = canvas_fields c"
  by (simp add: canvas_fields_def getpath_first_image_only del: getpath.simps)

lemma canvas_lines_first_image_only:
  "canvas_lines w (map first_image_only cs) = canvas_lines w cs"
  by (simp add: canvas_lines_def canvas_fields_first_image_only comp_def)

lemma canvas_lines_agree:
  assumes "map first_image_only cs = map first_image_only cs'"
  shows "canvas_lines w cs = canvas_lines w cs'"
  using canvas_lines_first_image_only[of w cs] canvas_lines_first_image_only[of w cs'] assms
  by simp

lemma fetch_outcome_cong:
  assumes "http_get w' = http_get w" "image_open w' = image_open w"
  shows "fetch_outcome w' n us = fetch_outcome w n us"
  by (induction us arbitrary: n) (simp_all add: assms split: sum.splits)

lemma image_id_path_agree:
  assumes "map first_image_only cs = map first_image_only cs'"
  shows "getpath (JArr cs)
       [Index 0, Key ''images'', Index 0, Key ''resource'', Key ''service'', Key ''@id''] =
     getpath (JArr cs')
       [Index 0, Key ''images'', Index 0, Key ''resource'', Key ''service'', Key ''@id'']"
  using set_image_id_first_image_only[of cs] set_image_id_first_image_only[of cs'] assms
  by simp

lemma iiif_outcome_agree:
  assumes "http_get w 0 slv_manifest_url = Inr body" "json_loads w body = Inr m"
    "getpath m [Key ''attribution''] = getpath m' [Key ''attribution'']"
    "getpath m [Key ''label''] = getpath m' [Key ''label'']"
    "getpath m [Key ''sequences'', Index 0, Key ''canvases''] = Inr (JArr cs)"
    "getpath m' [Key ''sequences'', Index 0, Key ''canvases''] = Inr (JArr cs')"
    "map first_image_only cs = map first_image_only cs'"
  shows "iiif_outcome (w\<lparr>json_loads := (\<lambda>b. Inr m')\<rparr>) = iiif_outcome w"
proof -
  let ?w = "w\<lparr>json_loads := (\<lambda>b. Inr m')\<rparr>"
  have f: "\<And>n us. fetch_outcome ?w n us = fetch_outcome w n us"
    by (rule fetch_outcome_cong) simp_all
  have "field_line ?w = field_line w"
    by (rule ext) (simp add: field_line_def split: sum.splits)
  then have l: "canvas_lines ?w cs' = canvas_lines w cs"
    using canvas_lines_agree[OF assms(7), of w] by (simp add: canvas_lines_def)
  show ?thesis
    unfolding iiif_outcome_def
    using assms(1-6) image_id_path_agree[OF assms(7)]
    by (simp add: f l del: getpath.simps split: sum.splits option.splits)
qed

text \<open>
  Claim C10, as the notebook has it. For every canvas of the array, in order, the loop
  prints the service \<open>@id\<close>, the format, the width and the height of \<open>images[0]\<close>
  of the canvas, up to the first field that cannot be read, whose exception ends the
  cell. \<open>image_id\<close> is the service \<open>@id\<close> of \<open>images[0]\<close> of the first canvas.
  Entries after the first in an \<open>images\<close> array are read by neither: two arrays of
  canvases that agree once every \<open>images\<close> array is cut down to its first entry give
  the same printed lines, the same exception and the same \<open>image_id\<close>, and two
  manifests that differ in such entries only give the same exception and the same
  requests in the run of the whole notebook.
\<close>

theorem only_first_image:
  "(canvases s = Some v \<longrightarrow>
      snd (canvas_loop w s) =
          (case py_iter v of Inl e \<Rightarrow> Some e | Inr cs \<Rightarrow> first_error (canvas_lines w cs))
      \<and> out (fst (canvas_loop w s)) =
          (case py_iter v of
             Inl e \<Rightarrow> out s
           | Inr cs \<Rightarrow> out s @ map Print (values_before_error (canvas_lines w cs))))
   \<and> (canvases s = Some (JArr (c # cs)) \<longrightarrow>
      set_image_id s =
        (case getpath c [Key ''images'', Index 0, Key ''resource'', Key ''service'', Key ''@id''] of
           Inl e \<Rightarrow> (s, Some e)
         | Inr i \<Rightarrow> (s\<lparr>image_id := Some i\<rparr>, None)))
   \<and> (map first_image_only cs1 = map first_image_only cs2 \<longrightarrow>
      canvas_lines w cs1 = canvas_lines w cs2
      \<and> out (fst (canvas_loop w (s\<lparr>canvases := Some (JArr cs1)\<rparr>))) =
          out (fst (canvas_loop w (s\<lparr>canvases := Some (JArr cs2)\<rparr>)))
      \<and> snd (canvas_loop w (s\<lparr>canvases := Some (JArr cs1)\<rparr>)) =
          snd (canvas_loop w (s\<lparr>canvases := Some (JArr cs2)\<rparr>))
      \<and> image_id (fst (set_image_id (s\<lparr>canvases := Some (JArr cs1)\<rparr>))) =
          image_id (fst (set_image_id (s\<lparr>canvases := Some (JArr cs2)\<rparr>)))
      \<and> snd (set_image_id (s\<lparr>canvases := Some (JArr cs1)\<rparr>)) =
          snd (set_image_id (s\<lparr>canvases := Some (JArr cs2)\<rparr>)))
   \<and> (http_get w 0 slv_manifest_url = Inr body \<and> json_loads w body = Inr m
        \<and> getpath m [Key ''attribution''] = getpath m' [Key ''attribution'']
        \<and> getpath m [Key ''label''] = getpath m' [Key ''label'']
        \<and> getpath m [Key ''sequences'', Index 0, Key ''canvases''] = Inr (JArr cs1)
        \<and> getpath m' [Key ''sequences'', Index 0, Key ''canvases''] = Inr (JArr cs2)
        \<and> map first_image_only cs1 = map first_image_only cs2 \<longrightarrow>
      snd (run_iiif (w\<lparr>json_loads := (\<lambda>b. Inr m')\<rparr>)) = snd (run_iiif w)
      \<and> gets (fst (run_iiif (w\<lparr>json_loads := (\<lambda>b. Inr m')\<rparr>))) = gets (fst (run_iiif w)))"
proof (intro conjI impI)
  assume "canvases s = Some v"
  from canvas_loop_run[OF this, of w]
  show "snd (canvas_loop w s) =
          (case py_iter v of Inl e \<Rightarrow> Some e | Inr cs \<Rightarrow> first_error (canvas_lines w cs))"
    and "out (fst (canvas_loop w s)) =
          (case py_iter v of
             Inl e \<Rightarrow> out s
           | Inr cs \<Rightarrow> out s @ map Print (values_before_error (canvas_lines w cs)))"
    by simp_all
next
  assume "canvases s = Some (JArr (c # cs))"
  then show "set_image_id s =
        (case getpath c [Key ''images'', Index 0, Key ''resource'', Key ''service'', Key ''@id''] of
           Inl e \<Rightarrow> (s, Some e)
         | Inr i \<Rightarrow> (s\<lparr>image_id := Some i\<rparr>, None))"
    by (simp add: set_image_id_def eval_path_def getpath.simps(2)[of "JArr _"]
        del: getpath.simps split: sum.splits)
next
  assume a: "map first_image_only cs1 = map first_image_only cs2"
  show "canvas_lines w cs1 = canvas_lines w cs2"
    by (rule canvas_lines_agree[OF a])
  have i: "image_id (fst (set_image_id (s\<lparr>canvases := Some (JArr cs1)\<rparr>))) =
           image_id (fst (set_image_id (s\<lparr>canvases := Some (JArr cs2)\<rparr>)))
       \<and> snd (set_image_id (s\<lparr>canvases := Some (JArr cs1)\<rparr>)) =
           snd (set_image_id (s\<lparr>canvases := Some (JArr cs2)\<rparr>))"
    using image_id_path_agree[OF a]
    by (simp add: set_image_id_def eval_path_def del: getpath.simps split: sum.splits)
  from i show "image_id (fst (set_image_id (s\<lparr>canvases := Some (JArr cs1)\<rparr>))) =
           image_id (fst (set_image_id (s\<lparr>canvases := Some (JArr cs2)\<rparr>)))"
    and "snd (set_image_id (s\<lparr>canvases := Some (JArr cs1)\<rparr>)) =
           snd (set_image_id (s\<lparr>canvases := Some (JArr cs2)\<rparr>))"
    by simp_all
  from canvas_loop_first_image_only[where w = w and s = s and cs = cs1]
    canvas_loop_first_image_only[where w = w and s = s and cs = cs2] a
  show "out (fst (canvas_loop w (s\<lparr>canvases := Some (JArr cs1)\<rparr>))) =
          out (fst (canvas_loop w (s\<lparr>canvases := Some (JArr cs2)\<rparr>)))"
    and "snd (canvas_loop w (s\<lparr>canvases := Some (JArr cs1)\<rparr>)) =
          snd (canvas_loop w (s\<lparr>canvases := Some (JArr cs2)\<rparr>))"
    by simp_all
next
  assume h: "http_get w 0 slv_manifest_url = Inr body \<and> json_loads w body = Inr m
        \<and> getpath m [Key ''attribution''] = getpath m' [Key ''attribution'']
        \<and> getpath m [Key ''label''] = getpath m' [Key ''label'']
        \<and> getpath m [Key ''sequences'', Index 0, Key ''canvases''] = Inr (JArr cs1)
        \<and> getpath m' [Key ''sequences'', Index 0, Key ''canvases''] = Inr (JArr cs2)
        \<and> map first_image_only cs1 = map first_image_only cs2"
  then have "iiif_outcome (w\<lparr>json_loads := (\<lambda>b. Inr m')\<rparr>) = iiif_outcome w"
    by (intro iiif_outcome_agree[where body = body and m = m and cs = cs1 and cs' = cs2]) simp_all
  then have "(snd (run_iiif (w\<lparr>json_loads := (\<lambda>b. Inr m')\<rparr>)),
              gets (fst (run_iiif (w\<lparr>json_loads := (\<lambda>b. Inr m')\<rparr>)))) =
             (snd (run_iiif w), gets (fst (run_iiif w)))"
    unfolding run_iiif_outcome .
  then show "snd (run_iiif (w\<lparr>json_loads := (\<lambda>b. Inr m')\<rparr>)) = snd (run_iiif w)"
    and "gets (fst (run_iiif (w\<lparr>json_loads := (\<lambda>b. Inr m')\<rparr>))) = gets (fst (run_iiif w))"
    by simp_all
qed

theorem only_first_image_witness:
  "snd (canvas_loop slv_world (iiif_init\<lparr>canvases := Some (JArr [crowded_canvas, JNull])\<rparr>)) =
     Some TypeError
   \<and> out (fst (canvas_loop slv_world (iiif_init\<lparr>canvases := Some (JArr [crowded_canvas, JNull])\<rparr>))) =
       [Print (''Image ID '' @ slv_image_id), Print ''Format image/jpeg'',
        Print ''Width 7000'', Print ''Height 5257'']
   \<and> snd (canvas_loop slv_world (iiif_init\<lparr>canvases := Some (JArr [slv_canvas, crowded_canvas])\<rparr>)) =
     None
   \<and> out (fst (canvas_loop slv_world (iiif_init\<lparr>canvases := Some (JArr [slv_canvas, crowded_canvas])\<rparr>))) =
       [Print (''Image ID '' @ slv_image_id), Print ''Format image/jpeg'',
        Print ''Width 7000'', Print ''Height 5257'',
        Print (''Image ID '' @ slv_image_id), Print ''Format image/jpeg'',
        Print ''Width 7000'', Print ''Height 5257'']
   \<and> set_image_id (iiif_init\<lparr>canvases := Some (JArr [crowded_canvas, JNull])\<rparr>) =
       (iiif_init\<lparr>canvases := Some (JArr [crowded_canvas, JNull]),
          image_id := Some (JStr slv_image_id)\<rparr>, None)
   \<and> map first_image_only [crowded_canvas] = map first_image_only [slv_canvas]
   \<and> crowded_canvas \<noteq> slv_canvas
   \<and> out (fst (canvas_loop slv_world (iiif_init\<lparr>canvases := Some (JArr [crowded_canvas])\<rparr>))) =
       out (fst (canvas_loop slv_world (iiif_init\<lparr>canvases := Some (JArr [slv_canvas])\<rparr>)))
   \<and> image_id (fst (set_image_id (iiif_init\<lparr>canvases := Some (JArr [crowded_canvas])\<rparr>))) =
       image_id (fst (set_image_id (iiif_init\<lparr>canvases := Some (JArr [slv_canvas])\<rparr>)))
   \<and> snd (run_iiif crowded_world) = snd (run_iiif slv_world)
   \<and> gets (fst (run_iiif crowded_world)) = gets (fst (run_iiif slv_world))
   \<and> gets (fst (run_iiif crowded_world)) = slv_manifest_url # image_requests slv_image_id"
proof -
  note P = only_first_image
  have l1: "first_error (canvas_lines slv_world [crowded_canvas, JNull]) = Some TypeError"
    "values_before_error (canvas_lines slv_world [crowded_canvas, JNull]) =
       [''Image ID '' @ slv_image_id, ''Format image/jpeg'', ''Width 7000'', ''Height 5257'']"
    "first_error (canvas_lines slv_world [slv_canvas, crowded_canvas]) = None"
    "values_before_error (canvas_lines slv_world [slv_canvas, crowded_canvas]) =
       [''Image ID '' @ slv_image_id, ''Format image/jpeg'', ''Width 7000'', ''Height 5257'',
        ''Image ID '' @ slv_image_id, ''Format image/jpeg'', ''Width 7000'', ''Height 5257'']"
    by code_simp+
  let ?a = "iiif_init\<lparr>canvases := Some (JArr [crowded_canvas, JNull])\<rparr>"
  let ?b = "iiif_init\<lparr>canvases := Some (JArr [slv_canvas, crowded_canvas])\<rparr>"
  have ha: "canvases ?a = Some (JArr [crowded_canvas, JNull])" by simp
  have hb: "canvases ?b = Some (JArr [slv_canvas, crowded_canvas])" by simp
  have o: "out ?a = []" "out ?b = []" by (simp_all add: iiif_init_def)
  have 1: "snd (canvas_loop slv_world ?a) = Some TypeError
      \<and> out (fst (canvas_loop slv_world ?a)) =
          [Print (''Image ID '' @ slv_image_id), Print ''Format image/jpeg'',
           Print ''Width 7000'', Print ''Height 5257'']"
    using P[where w = slv_world and s = ?a, THEN conjunct1, THEN mp, OF ha]
    by (simp add: l1 o)
  have 2: "snd (canvas_loop slv_world ?b) = None
      \<and> out (fst (canvas_loop slv_world ?b)) =
          [Print (''Image ID '' @ slv_image_id), Print ''Format image/jpeg'',
           Print ''Width 7000'', Print ''Height 5257'',
           Print (''Image ID '' @ slv_image_id), Print ''Format image/jpeg'',
           Print ''Width 7000'', Print ''Height 5257'']"
    using P[where w = slv_world and s = ?b, THEN conjunct1, THEN mp, OF hb]
    by (simp add: l1 o)
  have p: "getpath crowded_canvas
      [Key ''images'', Index 0, Key ''resource'', Key ''service'', Key ''@id''] =
      Inr (JStr slv_image_id)"
    by (simp add: crowded_canvas_def slv_resource_def)
  have 3: "set_image_id ?a = (?a\<lparr>image_id := Some (JStr slv_image_id)\<rparr>, None)"
    using P[where s = ?a and c = crowded_canvas and cs = "[JNull]", THEN conjunct2,
        THEN conjunct1, THEN mp, OF ha]
    by (simp add: p del: getpath.simps)
  have h: "map first_image_only [crowded_canvas] = map first_image_only [slv_canvas]"
    by (simp add: first_image_only_def first_only_def crowded_canvas_def slv_canvas_def)
  have d: "crowded_canvas \<noteq> slv_canvas"
    by (simp add: crowded_canvas_def slv_canvas_def)
  note 4 = P[where w = slv_world and s = iiif_init and ?cs1.0 = "[crowded_canvas]"
      and ?cs2.0 = "[slv_canvas]", THEN conjunct2, THEN conjunct2, THEN conjunct1, THEN mp, OF h]
  have h5: "http_get slv_world 0 slv_manifest_url = Inr slv_manifest_url
      \<and> json_loads slv_world slv_manifest_url = Inr slv_manifest
      \<and> getpath slv_manifest [Key ''attribution''] = getpath crowded_manifest [Key ''attribution'']
      \<and> getpath slv_manifest [Key ''label''] = getpath crowded_manifest [Key ''label'']
      \<and> getpath slv_manifest [Key ''sequences'', Index 0, Key ''canvases''] = Inr (JArr [slv_canvas])
      \<and> getpath crowded_manifest [Key ''sequences'', Index 0, Key ''canvases''] =
          Inr (JArr [crowded_canvas])
      \<and> map first_image_only [slv_canvas] = map first_image_only [crowded_canvas]"
    using h by (simp add: slv_world_def slv_manifest_def crowded_manifest_def slv_canvases_def)
  have w: "slv_world\<lparr>json_loads := (\<lambda>b. Inr crowded_manifest)\<rparr> = crowded_world"
    by (simp add: crowded_world_def)
  note 5 = P[where w = slv_world and m' = crowded_manifest, THEN conjunct2, THEN conjunct2,
      THEN conjunct2, THEN mp, OF h5, unfolded w]
  from 1 2 3 h d 4 5 slv_run(3) show ?thesis by (intro conjI) simp_all
qed

text \<open>
  Claim C10 as stated, that the program never reaches the further entries of an
  \<open>images\<close> array, fails for the manifest whose canvas has a second entry: the pretty
  printer and the cell that shows \<open>canvases\<close> display the whole value, the second
  entry included, so that what the run shows differs from the run on the manifest
  without it.
\<close>

theorem further_images_counterexample:
  "getpath crowded_manifest
       [Key ''sequences'', Index 0, Key ''canvases'', Index 0, Key ''images'', Index 1] =
     Inr (JObj [(''resource'', JObj [(''format'', JStr ''image/tiff'')])])
   \<and> out (fst (run_iiif crowded_world)) ! 0 = PPrint crowded_manifest
   \<and> out (fst (run_iiif crowded_world)) ! 2 = Echo (JArr [crowded_canvas])
   \<and> out (fst (run_iiif crowded_world)) \<noteq> out (fst (run_iiif slv_world))"
  by code_simp

end
